theory Spec2Isabelle
  imports Complex_Main "HOL-Library.AList"
begin

section \<open>Numbers\<close>

text \<open>
  The scoring code of \<^verbatim>\<open>backend/app/services/ml_engine.py\<close> computes with Python
  floats. They are modelled by the reals, with exact arithmetic; the two places where
  Python leaves the reals are written out: \<^verbatim>\<open>int(x)\<close> truncates towards zero and
  \<^verbatim>\<open>round(x, n)\<close> rounds to \<open>n\<close> decimals, a tie going to the even neighbour.

  Python rounds the binary float, not the decimal number. A decimal tie such as 47.15 is
  not a float: the float that stands for it lies just below or just above, and
  \<^verbatim>\<open>round\<close> returns the neighbour on that side (47.1 for 47.15). So at an exact tie
  the code may return either of the two neighbours, and the model, which returns the
  even one, may differ from it there. Where a property below speaks of the rounding
  of an arbitrary value, it therefore says only that the result is a nearest multiple
  of \<open>1 / 10 ^ n\<close>, which holds whichever neighbour a tie takes.
\<close>

definition py_int :: "real \<Rightarrow> int" where
  "py_int x = (if 0 \<le> x then \<lfloor>x\<rfloor> else \<lceil>x\<rceil>)"

definition round_half_even :: "real \<Rightarrow> int" where
  "round_half_even x =
     (let f = \<lfloor>x\<rfloor>; d = x - of_int f
      in if d < 1 / 2 then f
         else if 1 / 2 < d then f + 1
         else if even f then f else f + 1)"

definition py_round :: "real \<Rightarrow> nat \<Rightarrow> real" where
  "py_round x n = of_int (round_half_even (x * 10 ^ n)) / 10 ^ n"

section \<open>Python strings\<close>

text \<open>
  A Python string is modelled as a list of characters, each standing for one code point;
  the character classes are those of ASCII text (the transcripts are English), and a
  character outside ASCII is in none of them. \<^verbatim>\<open>\w\<close> is a letter, a digit or the
  underscore; \<^verbatim>\<open>\s\<close> and the white space of \<^verbatim>\<open>str.split\<close> and \<^verbatim>\<open>str.strip\<close>
  are the ASCII white-space characters.
\<close>

definition is_space :: "char \<Rightarrow> bool" where
  "is_space c = (let n = (of_char c :: nat) in (9 \<le> n \<and> n \<le> 13) \<or> (28 \<le> n \<and> n \<le> 32))"

definition is_upper :: "char \<Rightarrow> bool" where
  "is_upper c = (let n = (of_char c :: nat) in 65 \<le> n \<and> n \<le> 90)"

definition is_lower :: "char \<Rightarrow> bool" where
  "is_lower c = (let n = (of_char c :: nat) in 97 \<le> n \<and> n \<le> 122)"

definition is_digit :: "char \<Rightarrow> bool" where
  "is_digit c = (let n = (of_char c :: nat) in 48 \<le> n \<and> n \<le> 57)"

definition is_alpha :: "char \<Rightarrow> bool" where
  "is_alpha c = (is_upper c \<or> is_lower c)"

definition is_word_char :: "char \<Rightarrow> bool" where
  "is_word_char c = (is_alpha c \<or> is_digit c \<or> c = CHR ''_'')"

definition to_lower :: "char \<Rightarrow> char" where
  "to_lower c = (if is_upper c then char_of (of_char c + (32 :: nat)) else c)"

text \<open>\<^verbatim>\<open>s.lower()\<close>, \<^verbatim>\<open>s.strip()\<close>, \<^verbatim>\<open>sub in s\<close> and \<^verbatim>\<open>s.startswith(p)\<close>.\<close>

definition py_lower :: "string \<Rightarrow> string" where
  "py_lower s = map to_lower s"

definition py_strip :: "string \<Rightarrow> string" where
  "py_strip s = rev (dropWhile is_space (rev (dropWhile is_space s)))"

fun starts_with :: "string \<Rightarrow> string \<Rightarrow> bool" where
  "starts_with [] s = True"
| "starts_with (p # ps) [] = False"
| "starts_with (p # ps) (c # cs) = (if p = c then starts_with ps cs else False)"

fun py_in :: "string \<Rightarrow> string \<Rightarrow> bool" where
  "py_in sub [] = (sub = [])"
| "py_in sub (c # cs) = (if starts_with sub (c # cs) then True else py_in sub cs)"

text \<open>
  Splitting at separator characters, empty pieces dropped: \<^verbatim>\<open>s.split()\<close> splits at
  white space; the maximal runs of word characters are the pieces between the other
  characters.
\<close>

fun split_on :: "(char \<Rightarrow> bool) \<Rightarrow> string \<Rightarrow> string \<Rightarrow> string list" where
  "split_on sep cur [] = (if cur = [] then [] else [cur])"
| "split_on sep cur (c # cs) =
     (if sep c then (if cur = [] then split_on sep [] cs else cur # split_on sep [] cs)
      else split_on sep (cur @ [c]) cs)"

definition py_split :: "string \<Rightarrow> string list" where
  "py_split s = split_on is_space [] s"

definition word_runs :: "string \<Rightarrow> string list" where
  "word_runs s = split_on (\<lambda>c. \<not> is_word_char c) [] s"

text \<open>
  \<^verbatim>\<open>re.findall(r'\b[a-zA-Z]{3,}\b', s)\<close>: a match starts and ends at a word boundary,
  so it is a whole run of word characters; the runs of three or more letters match.
\<close>

definition alpha_tokens :: "string \<Rightarrow> string list" where
  "alpha_tokens s = filter (\<lambda>w. 3 \<le> length w \<and> list_all is_alpha w) (word_runs s)"

text \<open>
  \<^verbatim>\<open>[s.strip() for s in re.split(r'[.!?]+', t) if s.strip()]\<close>: the pieces between the
  sentence marks, stripped, the blank ones dropped.
\<close>

definition sentences_of :: "string \<Rightarrow> string list" where
  "sentences_of t =
     filter (\<lambda>s. s \<noteq> [])
       (map py_strip (split_on (\<lambda>c. c \<in> set [CHR ''.'', CHR ''!'', CHR ''?'']) [] t))"

text \<open>
  Word boundaries: \<^verbatim>\<open>\b\<close> holds between two neighbours (\<open>None\<close> is the start or the
  end of the text) when exactly one of them is a word character.
\<close>

definition is_word_opt :: "char option \<Rightarrow> bool" where
  "is_word_opt x = (case x of None \<Rightarrow> False | Some c \<Rightarrow> is_word_char c)"

definition word_boundary :: "char option \<Rightarrow> char option \<Rightarrow> bool" where
  "word_boundary a b = (is_word_opt a \<noteq> is_word_opt b)"

definition char_at :: "string \<Rightarrow> nat \<Rightarrow> char option" where
  "char_at s i = (if i < length s then Some (s ! i) else None)"

text \<open>
  \<^verbatim>\<open>len(re.findall(r'\b' + re.escape(lit) + r'\b', s))\<close> for a non-empty literal: the
  scan goes from left to right, \<open>prev\<close> is the character before the position, and
  after a match the next \<open>skip\<close> characters belong to it (matches do not overlap).
\<close>

fun count_literal :: "string \<Rightarrow> nat \<Rightarrow> char option \<Rightarrow> string \<Rightarrow> nat" where
  "count_literal lit skip prev [] = 0"
| "count_literal lit skip prev (c # cs) =
     (if 0 < skip then count_literal lit (skip - 1) (Some c) cs
      else if starts_with lit (c # cs) then
        (if word_boundary prev (Some c)
            \<and> word_boundary (Some (last lit)) (char_at (c # cs) (length lit))
         then Suc (count_literal lit (length lit - 1) (Some c) cs)
         else count_literal lit 0 (Some c) cs)
      else count_literal lit 0 (Some c) cs)"

definition findall_literal :: "string \<Rightarrow> string \<Rightarrow> nat" where
  "findall_literal lit s = count_literal lit 0 None s"

text \<open>
  \<^verbatim>\<open>re.search(r'\bw1\s+w2\b', s)\<close>, the shape of the fallback grammar patterns: the
  first word at a word boundary, one or more white-space characters, the second word,
  a word boundary.
\<close>

definition two_words_at :: "string \<Rightarrow> string \<Rightarrow> char option \<Rightarrow> string \<Rightarrow> bool" where
  "two_words_at w1 w2 prev s =
     (if starts_with w1 s then
        (let r = drop (length w1) s; r' = dropWhile is_space r
         in word_boundary prev (char_at s 0)
            \<and> r \<noteq> [] \<and> is_space (hd r) \<and> starts_with w2 r'
            \<and> word_boundary (Some (last w2)) (char_at r' (length w2)))
      else False)"

fun search_two_words :: "string \<Rightarrow> string \<Rightarrow> char option \<Rightarrow> string \<Rightarrow> bool" where
  "search_two_words w1 w2 prev [] = False"
| "search_two_words w1 w2 prev (c # cs) =
     (if two_words_at w1 w2 prev (c # cs) then True
      else search_two_words w1 w2 (Some c) cs)"

text \<open>
  \<^verbatim>\<open>re.findall(r'\b' + re.escape(stem) + r'[a-z]*\b', s)\<close>: the stem at a word
  boundary, then the longest run of lower-case letters, which must end at a word
  boundary; the matched strings, in order.
\<close>

fun findall_stem :: "string \<Rightarrow> nat \<Rightarrow> char option \<Rightarrow> string \<Rightarrow> string list" where
  "findall_stem stem skip prev [] = []"
| "findall_stem stem skip prev (c # cs) =
     (if 0 < skip then findall_stem stem (skip - 1) (Some c) cs
      else if starts_with stem (c # cs) then
        (let run = takeWhile is_lower (drop (length stem) (c # cs));
             m = stem @ run
         in if word_boundary prev (Some c)
               \<and> word_boundary (Some (last m)) (char_at (c # cs) (length m))
            then m # findall_stem stem (length m - 1) (Some c) cs
            else findall_stem stem 0 (Some c) cs)
      else findall_stem stem 0 (Some c) cs)"

section \<open>Configuration (\<^verbatim>\<open>backend/app/config.py\<close>)\<close>

definition MIN_SCORE :: real where "MIN_SCORE = 0"
definition MAX_SCORE :: real where "MAX_SCORE = 100"

text \<open>\<^verbatim>\<open>SCORE_WEIGHTS\<close>, one constant for each key of the dictionary.\<close>

definition SCORE_WEIGHTS_content :: real where "SCORE_WEIGHTS_content = 0.30"
definition SCORE_WEIGHTS_delivery :: real where "SCORE_WEIGHTS_delivery = 0.15"
definition SCORE_WEIGHTS_communication :: real where "SCORE_WEIGHTS_communication = 0.15"
definition SCORE_WEIGHTS_voice :: real where "SCORE_WEIGHTS_voice = 0.15"
definition SCORE_WEIGHTS_confidence :: real where "SCORE_WEIGHTS_confidence = 0.15"
definition SCORE_WEIGHTS_structure :: real where "SCORE_WEIGHTS_structure = 0.10"

definition OPTIMAL_WPM_MIN :: real where "OPTIMAL_WPM_MIN = 130"
definition OPTIMAL_WPM_MAX :: real where "OPTIMAL_WPM_MAX = 160"
definition WPM_TOO_SLOW :: real where "WPM_TOO_SLOW = 100"
definition WPM_TOO_FAST :: real where "WPM_TOO_FAST = 180"

definition FILLER_WORDS :: "string list" where
  "FILLER_WORDS =
     [''um'', ''uh'', ''umm'', ''uhh'', ''er'', ''err'',
      ''like'', ''you know'', ''basically'', ''actually'',
      ''literally'', ''honestly'', ''right'', ''okay'',
      ''so'', ''well'', ''I mean'', ''kind of'', ''sort of'',
      ''you see'', ''I guess'', ''anyway'']"

definition FILLER_PENALTY_PER_WORD :: real where "FILLER_PENALTY_PER_WORD = 2.0"
definition MAX_FILLER_PENALTY :: real where "MAX_FILLER_PENALTY = 30.0"
definition GRAMMAR_PENALTY_PER_ERROR :: real where "GRAMMAR_PENALTY_PER_ERROR = 3.0"
definition MAX_GRAMMAR_PENALTY :: real where "MAX_GRAMMAR_PENALTY = 40.0"

text \<open>\<^verbatim>\<open>COMMUNICATION_WEIGHTS\<close>.\<close>

definition COMMUNICATION_WEIGHTS_grammar :: real where
  "COMMUNICATION_WEIGHTS_grammar = 0.30"
definition COMMUNICATION_WEIGHTS_vocabulary_diversity :: real where
  "COMMUNICATION_WEIGHTS_vocabulary_diversity = 0.25"
definition COMMUNICATION_WEIGHTS_sentence_complexity :: real where
  "COMMUNICATION_WEIGHTS_sentence_complexity = 0.15"
definition COMMUNICATION_WEIGHTS_coherence :: real where
  "COMMUNICATION_WEIGHTS_coherence = 0.15"
definition COMMUNICATION_WEIGHTS_professional_vocab :: real where
  "COMMUNICATION_WEIGHTS_professional_vocab = 0.15"

definition TTR_EXCELLENT :: real where "TTR_EXCELLENT = 0.65"
definition TTR_GOOD :: real where "TTR_GOOD = 0.50"
definition TTR_POOR :: real where "TTR_POOR = 0.30"

definition SENTENCE_LENGTH_MIN :: real where "SENTENCE_LENGTH_MIN = 8"
definition SENTENCE_LENGTH_MAX :: real where "SENTENCE_LENGTH_MAX = 30"
definition SENTENCE_LENGTH_OPTIMAL_MIN :: real where "SENTENCE_LENGTH_OPTIMAL_MIN = 12"
definition SENTENCE_LENGTH_OPTIMAL_MAX :: real where "SENTENCE_LENGTH_OPTIMAL_MAX = 20"

definition TRANSITION_WORDS :: "string list" where
  "TRANSITION_WORDS =
     [''first'', ''second'', ''third'', ''finally'', ''next'', ''then'', ''lastly'',
      ''additionally'', ''moreover'', ''furthermore'', ''also'', ''besides'', ''in addition'',
      ''however'', ''although'', ''nevertheless'', ''on the other hand'', ''conversely'', ''but'',
      ''therefore'', ''consequently'', ''as a result'', ''because'', ''thus'', ''hence'',
      ''for example'', ''for instance'', ''specifically'', ''such as'', ''namely'',
      ''in conclusion'', ''to summarize'', ''overall'', ''in summary'', ''ultimately'']"

definition PROFESSIONAL_TERMS :: "string list" where
  "PROFESSIONAL_TERMS =
     [''implemented'', ''developed'', ''managed'', ''coordinated'', ''analyzed'',
      ''designed'', ''optimized'', ''established'', ''facilitated'', ''achieved'',
      ''collaborated'', ''executed'', ''strategized'', ''delegated'', ''evaluated'',
      ''led'', ''created'', ''resolved'', ''improved'', ''streamlined'',
      ''initiated'', ''delivered'', ''mentored'', ''negotiated'', ''presented'',
      ''stakeholder'', ''deliverable'', ''milestone'', ''objective'', ''deadline'',
      ''benchmark'', ''metrics'', ''strategy'', ''framework'', ''methodology'',
      ''scalable'', ''efficient'', ''innovative'', ''proactive'', ''comprehensive'']"

definition MIN_WORDS_FOR_ANALYSIS :: nat where "MIN_WORDS_FOR_ANALYSIS = 20"

text \<open>\<^verbatim>\<open>CONFIDENCE_WEIGHTS\<close> and \<^verbatim>\<open>STRUCTURE_WEIGHTS\<close>.\<close>

definition CONFIDENCE_WEIGHTS_voice_confidence :: real where
  "CONFIDENCE_WEIGHTS_voice_confidence = 0.40"
definition CONFIDENCE_WEIGHTS_eye_contact :: real where
  "CONFIDENCE_WEIGHTS_eye_contact = 0.30"
definition CONFIDENCE_WEIGHTS_body_stability :: real where
  "CONFIDENCE_WEIGHTS_body_stability = 0.20"
definition CONFIDENCE_WEIGHTS_emotion_positivity :: real where
  "CONFIDENCE_WEIGHTS_emotion_positivity = 0.10"

definition STRUCTURE_WEIGHTS_star_method :: real where "STRUCTURE_WEIGHTS_star_method = 0.50"
definition STRUCTURE_WEIGHTS_organization :: real where "STRUCTURE_WEIGHTS_organization = 0.30"
definition STRUCTURE_WEIGHTS_conclusion :: real where "STRUCTURE_WEIGHTS_conclusion = 0.20"

definition STAR_SITUATION_KEYWORDS :: "string list" where
  "STAR_SITUATION_KEYWORDS =
     [''situation'', ''context'', ''background'', ''when'', ''there was'', ''faced with'',
      ''challenge was'', ''problem was'', ''at the time'', ''in my role'']"

definition STAR_TASK_KEYWORDS :: "string list" where
  "STAR_TASK_KEYWORDS =
     [''task'', ''responsible for'', ''my role'', ''needed to'', ''had to'',
      ''goal was'', ''objective was'', ''assigned to'', ''in charge of'']"

definition STAR_ACTION_KEYWORDS :: "string list" where
  "STAR_ACTION_KEYWORDS =
     [''action'', ''i did'', ''i took'', ''implemented'', ''developed'', ''created'',
      ''initiated'', ''led'', ''organized'', ''coordinated'', ''decided to'']"

definition STAR_RESULT_KEYWORDS :: "string list" where
  "STAR_RESULT_KEYWORDS =
     [''result'', ''outcome'', ''achieved'', ''increased'', ''decreased'', ''improved'',
      ''saved'', ''reduced'', ''generated'', ''led to'', ''resulted in'', ''percent'']"

text \<open>
  \<^verbatim>\<open>QUALITY_GATES\<close>: the threshold, the penalty and the message of each gate;
  \<^verbatim>\<open>MIN_COHERENCE_SCORE\<close> and \<^verbatim>\<open>SCORE_CAPS\<close>.
\<close>

definition QG_min_word_count_threshold :: nat where "QG_min_word_count_threshold = 15"
definition QG_min_word_count_penalty :: real where "QG_min_word_count_penalty = 50"
definition QG_min_word_count_message :: string where
  "QG_min_word_count_message = ''Answer too short - provide more detail''"

definition QG_min_unique_words_threshold :: nat where "QG_min_unique_words_threshold = 10"
definition QG_min_unique_words_penalty :: real where "QG_min_unique_words_penalty = 30"
definition QG_min_unique_words_message :: string where
  "QG_min_unique_words_message = ''Limited vocabulary - use more varied words''"

definition QG_max_filler_ratio_threshold :: real where "QG_max_filler_ratio_threshold = 0.15"
definition QG_max_filler_ratio_penalty :: real where "QG_max_filler_ratio_penalty = 25"
definition QG_max_filler_ratio_message :: string where
  "QG_max_filler_ratio_message = ''Too many filler words - practice speaking clearly''"

definition QG_min_relevance_threshold :: real where "QG_min_relevance_threshold = 0.25"
definition QG_min_relevance_penalty :: real where "QG_min_relevance_penalty = 40"
definition QG_min_relevance_message :: string where
  "QG_min_relevance_message = ''Answer does not address the question''"

definition QG_max_repetition_threshold :: real where "QG_max_repetition_threshold = 0.3"
definition QG_max_repetition_penalty :: real where "QG_max_repetition_penalty = 20"
definition QG_max_repetition_message :: string where
  "QG_max_repetition_message = ''Avoid repeating the same phrases''"

definition MIN_COHERENCE_SCORE :: real where "MIN_COHERENCE_SCORE = 30.0"

definition SCORE_CAPS_very_short :: int where "SCORE_CAPS_very_short = 40"
definition SCORE_CAPS_short :: int where "SCORE_CAPS_short = 60"
definition SCORE_CAPS_no_structure :: int where "SCORE_CAPS_no_structure = 55"
definition SCORE_CAPS_off_topic :: int where "SCORE_CAPS_off_topic = 35"
definition SCORE_CAPS_nonsense :: int where "SCORE_CAPS_nonsense = 15"

section \<open>Collaborators\<close>

text \<open>
  Three collaborators of the scoring code live outside the repository; what they return
  is a parameter of the model. So is the rounding error of the one computation that the
  code makes in single precision.
  \<^item> The sentence encoder (\<^verbatim>\<open>get_model()\<close>): \<open>None\<close> when the model could not be loaded;
    otherwise a function giving the embedding of a text, or \<open>None\<close> where
    \<^verbatim>\<open>model.encode\<close> raises.
  \<^item> The grammar checker (\<^verbatim>\<open>_get_language_tool()\<close>): \<open>None\<close> when it could not be
    loaded; otherwise a function giving the number of matches of type grammar or typos,
    or \<open>None\<close> where \<^verbatim>\<open>tool.check\<close> raises.
  \<^item> The voice analysis (\<^verbatim>\<open>analyze_voice(audio_path)\<close>): the scores \<^verbatim>\<open>overall\<close> and
    \<^verbatim>\<open>voice_confidence\<close>, or \<open>None\<close> where the analysis raises.
  \<^item> The rounding error of \<^verbatim>\<open>_cosine_similarity\<close>: numpy computes the dot product, the
    norms and the quotient of two embeddings in \<^verbatim>\<open>float32\<close>, so the value returned is
    the exact one plus an error that depends on the two vectors (for the vector
    \<open>[0.5, 3.0]\<close> against itself the code returns 0.99999994, not 1).
\<close>

record collaborators =
  encoder :: "(string \<Rightarrow> real list option) option"
  language_tool :: "(string \<Rightarrow> nat option) option"
  analyze_voice :: "string \<Rightarrow> (real \<times> real) option"
  cosine_error :: "real list \<Rightarrow> real list \<Rightarrow> real"

section \<open>Semantic similarity\<close>

text \<open>
  \<^verbatim>\<open>_cosine_similarity(vec1, vec2)\<close>, with \<^verbatim>\<open>np.dot\<close> and \<^verbatim>\<open>np.linalg.norm\<close>. The
  value returned is the exact value of \<^verbatim>\<open>(similarity + 1) / 2\<close> plus the rounding error
  of the computation; the early return for a zero norm is exact.
\<close>

definition np_dot :: "real list \<Rightarrow> real list \<Rightarrow> real" where
  "np_dot v1 v2 = sum_list (map (\<lambda>(a, b). a * b) (zip v1 v2))"

definition np_norm :: "real list \<Rightarrow> real" where
  "np_norm v = sqrt (sum_list (map (\<lambda>a. a * a) v))"

definition cosine_similarity :: "collaborators \<Rightarrow> real list \<Rightarrow> real list \<Rightarrow> real" where
  "cosine_similarity env vec1 vec2 =
     (let dot_product = np_dot vec1 vec2; norm1 = np_norm vec1; norm2 = np_norm vec2
      in if norm1 = 0 \<or> norm2 = 0 then 0.0
         else let similarity = dot_product / (norm1 * norm2)
              in (similarity + 1) / 2 + cosine_error env vec1 vec2)"

text \<open>\<^verbatim>\<open>_fallback_similarity(text1, text2)\<close>: the Jaccard similarity of the word sets.\<close>

definition fallback_similarity :: "string \<Rightarrow> string \<Rightarrow> real" where
  "fallback_similarity text1 text2 =
     (let words1 = remdups (py_split (py_lower text1));
          words2 = remdups (py_split (py_lower text2));
          intersection = length (filter (\<lambda>w. w \<in> set words2) words1);
          union = length (remdups (words1 @ words2))
      in if union = 0 then 0.0 else real intersection / real union)"

text \<open>
  \<^verbatim>\<open>semantic_similarity(text1, text2)\<close>. \<^verbatim>\<open>np.dot\<close> raises on vectors of different
  lengths, and the \<^verbatim>\<open>except\<close> branch then takes the fallback.
\<close>

definition semantic_similarity :: "collaborators \<Rightarrow> string \<Rightarrow> string \<Rightarrow> real" where
  "semantic_similarity env text1 text2 =
     (if text1 = [] \<or> text2 = [] then 0.0
      else case encoder env of
             None \<Rightarrow> fallback_similarity text1 text2
           | Some encode \<Rightarrow>
               (case (encode text1, encode text2) of
                  (Some e1, Some e2) \<Rightarrow>
                    if length e1 = length e2
                    then max 0.0 (min 1.0 (cosine_similarity env e1 e2))
                    else fallback_similarity text1 text2
                | _ \<Rightarrow> fallback_similarity text1 text2))"

section \<open>Delivery: fillers and speaking pace\<close>

text \<open>
  \<^verbatim>\<open>count_fillers(transcript)\<close>: the total and, for each filler found, its count (the
  source formats the pair as a string).
\<close>

definition count_fillers :: "string \<Rightarrow> nat \<times> (string \<times> nat) list" where
  "count_fillers transcript =
     (if transcript = [] then (0, [])
      else let transcript_lower = py_lower transcript;
               found_fillers = filter (\<lambda>(filler, count). 0 < count)
                 (map (\<lambda>filler. (filler, findall_literal filler transcript_lower)) FILLER_WORDS)
           in (sum_list (map snd found_fillers), found_fillers))"

text \<open>\<^verbatim>\<open>compute_wpm(transcript, duration_seconds)\<close>.\<close>

definition compute_wpm :: "string \<Rightarrow> real \<Rightarrow> real" where
  "compute_wpm transcript duration_seconds =
     (if transcript = [] \<or> duration_seconds \<le> 0 then 0.0
      else let word_count = length (py_split transcript);
               duration_minutes = duration_seconds / 60.0
           in if duration_minutes \<le> 0 then 0.0
              else py_round (real word_count / duration_minutes) 1)"

text \<open>\<^verbatim>\<open>get_wpm_assessment(wpm)\<close>: the feedback message and the pace penalty.\<close>

definition get_wpm_assessment :: "real \<Rightarrow> string \<times> int" where
  "get_wpm_assessment wpm =
     (if wpm < WPM_TOO_SLOW then
        (''Speaking too slowly - try to maintain better flow'',
         min 30 (py_int ((WPM_TOO_SLOW - wpm) * 0.5)))
      else if wpm > WPM_TOO_FAST then
        (''Speaking too fast - slow down for clarity'',
         min 30 (py_int ((wpm - WPM_TOO_FAST) * 0.3)))
      else if OPTIMAL_WPM_MIN \<le> wpm \<and> wpm \<le> OPTIMAL_WPM_MAX then
        (''Good speaking pace'', 0)
      else if wpm < OPTIMAL_WPM_MIN then
        (''Slightly slow - could pick up the pace a bit'', 5)
      else
        (''Slightly fast - could slow down a bit'', 5))"

text \<open>
  The pace penalty as the specification words it: nothing inside the optimal range, 5 in
  the shoulders, and outside \<open>[100, 180]\<close> a linear penalty capped at 30, the distance
  being measured from the bounds \<open>lo\<close> and \<open>hi\<close> (the specification says "the nearest
  optimal bound"; both readings, \<open>100/180\<close> and \<open>130/160\<close>, are instances).
\<close>

definition spec_pace_penalty :: "real \<Rightarrow> real \<Rightarrow> real \<Rightarrow> real" where
  "spec_pace_penalty lo hi wpm =
     (if 130 \<le> wpm \<and> wpm \<le> 160 then 0
      else if 100 \<le> wpm \<and> wpm \<le> 180 then 5
      else if wpm < 100 then min 30 (0.5 * (lo - wpm))
      else min 30 (0.3 * (wpm - hi)))"

section \<open>Communication\<close>

text \<open>
  \<^verbatim>\<open>_heuristic_grammar_check(transcript)\<close>: each pattern that occurs counts once. The
  patterns are pairs of words, \<^verbatim>\<open>r'\bw1\s+w2\b'\<close>. Of the pair returned by the source
  the error count is kept; the descriptions are texts for the user.
\<close>

definition grammar_patterns :: "(string \<times> string) list" where
  "grammar_patterns =
     [(''i'', ''is''), (''he'', ''have''), (''she'', ''have''), (''they'', ''was''),
      (''we'', ''was''), (''don'' @ [CHR 0x27] @ ''t'', ''got''),
      (''could'', ''of''), (''would'', ''of''), (''should'', ''of'')]"

definition heuristic_grammar_check :: "string \<Rightarrow> nat" where
  "heuristic_grammar_check transcript =
     (let text_lower = py_lower transcript
      in length (filter (\<lambda>(w1, w2). search_two_words w1 w2 None text_lower) grammar_patterns))"

text \<open>\<^verbatim>\<open>estimate_grammar_errors(transcript)\<close>: the number of errors.\<close>

definition estimate_grammar_errors :: "collaborators \<Rightarrow> string \<Rightarrow> nat" where
  "estimate_grammar_errors env transcript =
     (if transcript = [] \<or> length transcript < 10 then 0
      else case language_tool env of
             None \<Rightarrow> heuristic_grammar_check transcript
           | Some check \<Rightarrow>
               (case check transcript of
                  Some errors \<Rightarrow> errors
                | None \<Rightarrow> heuristic_grammar_check transcript))"

text \<open>
  The analyses below return dictionaries in the source; the model returns the entry
  \<^verbatim>\<open>"score"\<close>, the only one a score is computed from.
  \<^verbatim>\<open>calculate_vocabulary_diversity(transcript)\<close>:
\<close>

definition calculate_vocabulary_diversity :: "string \<Rightarrow> real" where
  "calculate_vocabulary_diversity transcript =
     (if transcript = [] then 0.0
      else let words = alpha_tokens (py_lower transcript);
               total_words = length words
           in if total_words < MIN_WORDS_FOR_ANALYSIS then 0.0
              else let unique_words = length (remdups words);
                       ttr = real unique_words / real total_words;
                       score =
                         (if ttr \<ge> TTR_EXCELLENT then 85 + (ttr - TTR_EXCELLENT) * 100
                          else if ttr \<ge> TTR_GOOD then
                            70 + (ttr - TTR_GOOD) / (TTR_EXCELLENT - TTR_GOOD) * 15
                          else if ttr \<ge> TTR_POOR then
                            40 + (ttr - TTR_POOR) / (TTR_GOOD - TTR_POOR) * 30
                          else ttr / TTR_POOR * 40)
                   in py_round (min 100 (max 0 score)) 1)"

text \<open>\<^verbatim>\<open>np.mean\<close> and \<^verbatim>\<open>np.std\<close> (the population standard deviation) of a non-empty list.\<close>

definition np_mean :: "real list \<Rightarrow> real" where
  "np_mean xs = sum_list xs / real (length xs)"

definition np_std :: "real list \<Rightarrow> real" where
  "np_std xs = sqrt (np_mean (map (\<lambda>x. (x - np_mean xs) * (x - np_mean xs)) xs))"

text \<open>\<^verbatim>\<open>analyze_sentence_complexity(transcript)\<close>:\<close>

definition analyze_sentence_complexity :: "string \<Rightarrow> real" where
  "analyze_sentence_complexity transcript =
     (if transcript = [] then 0.0
      else let sentences = sentences_of transcript
           in if length sentences < 2 then 50.0
              else let lengths = map (\<lambda>s. real (length (py_split s))) sentences;
                       avg_length = np_mean lengths;
                       length_std = np_std lengths;
                       score = 100.0;
                       score =
                         (if avg_length < SENTENCE_LENGTH_MIN then
                            score - (SENTENCE_LENGTH_MIN - avg_length) * 5
                          else if avg_length > SENTENCE_LENGTH_MAX then
                            score - (avg_length - SENTENCE_LENGTH_MAX) * 3
                          else if SENTENCE_LENGTH_OPTIMAL_MIN \<le> avg_length
                                  \<and> avg_length \<le> SENTENCE_LENGTH_OPTIMAL_MAX then score
                          else if avg_length < SENTENCE_LENGTH_OPTIMAL_MIN then score - 10
                          else score - 10);
                       score = (if 3 \<le> length_std \<and> length_std \<le> 8 then score + 5 else score)
                   in py_round (min 100 (max 0 score)) 1)"

text \<open>\<^verbatim>\<open>analyze_coherence(transcript)\<close>:\<close>

definition analyze_coherence :: "string \<Rightarrow> real" where
  "analyze_coherence transcript =
     (if transcript = [] then 0.0
      else let transcript_lower = py_lower transcript;
               total_words = length (py_split transcript_lower)
           in if total_words < MIN_WORDS_FOR_ANALYSIS then 0.0
              else let found_transitions =
                         filter (\<lambda>transition.
                                   if CHR '' '' \<in> set transition
                                   then py_in transition transcript_lower
                                   else 0 < findall_literal transition transcript_lower)
                           TRANSITION_WORDS;
                       transition_count = length found_transitions;
                       score =
                         (if transition_count \<ge> 5 then
                            90 + min 10 ((real transition_count - 5) * 2)
                          else if transition_count \<ge> 3 then
                            75 + (real transition_count - 3) * 7.5
                          else if transition_count \<ge> 1 then
                            50 + (real transition_count - 1) * 12.5
                          else 40)
                   in py_round (min 100 (max 0 score)) 1)"

text \<open>\<^verbatim>\<open>detect_professional_vocabulary(transcript)\<close>:\<close>

definition detect_professional_vocabulary :: "string \<Rightarrow> real" where
  "detect_professional_vocabulary transcript =
     (if transcript = [] then 0.0
      else let transcript_lower = py_lower transcript;
               total_words = length (alpha_tokens transcript_lower)
           in if total_words < MIN_WORDS_FOR_ANALYSIS then 0.0
              else let found_terms =
                         concat (map (\<lambda>term.
                                   take 3 (findall_stem (take (min 6 (length term)) term) 0 None
                                             transcript_lower))
                                 PROFESSIONAL_TERMS);
                       unique_terms = remdups found_terms;
                       professional_count = length unique_terms;
                       score =
                         (if professional_count \<ge> 6 then
                            90 + min 10 ((real professional_count - 6) * 2)
                          else if professional_count \<ge> 4 then
                            75 + (real professional_count - 4) * 7.5
                          else if professional_count \<ge> 2 then
                            55 + (real professional_count - 2) * 10
                          else if professional_count \<ge> 1 then 45
                          else 35)
                   in py_round (min 100 (max 0 score)) 1)"

text \<open>
  The grammar factor of \<^verbatim>\<open>calculate_enhanced_communication_score\<close>:
  \<^verbatim>\<open>min(100, max(0, 100 - grammar_errors * GRAMMAR_PENALTY_PER_ERROR))\<close>.
\<close>

definition grammar_score :: "nat \<Rightarrow> real" where
  "grammar_score grammar_errors =
     min 100 (max 0 (100 - real grammar_errors * GRAMMAR_PENALTY_PER_ERROR))"

text \<open>
  \<^verbatim>\<open>calculate_enhanced_communication_score(transcript)\<close>: the entry \<^verbatim>\<open>"final_score"\<close>
  and the error count of the grammar factor (0 when the dictionary of factors is empty).
\<close>

record communication_analysis =
  comm_final_score :: real
  comm_grammar_errors :: nat

definition calculate_enhanced_communication_score ::
  "collaborators \<Rightarrow> string \<Rightarrow> communication_analysis" where
  "calculate_enhanced_communication_score env transcript =
     (if transcript = [] \<or> length (py_strip transcript) < 10
      then \<lparr>comm_final_score = 0.0, comm_grammar_errors = 0\<rparr>
      else let grammar_errors = estimate_grammar_errors env transcript;
               factors =
                 [(py_round (grammar_score grammar_errors) 1, COMMUNICATION_WEIGHTS_grammar),
                  (calculate_vocabulary_diversity transcript,
                   COMMUNICATION_WEIGHTS_vocabulary_diversity),
                  (analyze_sentence_complexity transcript,
                   COMMUNICATION_WEIGHTS_sentence_complexity),
                  (analyze_coherence transcript, COMMUNICATION_WEIGHTS_coherence),
                  (detect_professional_vocabulary transcript,
                   COMMUNICATION_WEIGHTS_professional_vocab)];
               final_score = sum_list (map (\<lambda>(score, weight). score * weight) factors)
           in \<lparr>comm_final_score = py_round final_score 1,
               comm_grammar_errors = grammar_errors\<rparr>)"

section \<open>Structure and confidence\<close>

text \<open>\<^verbatim>\<open>analyze_star_structure(transcript)\<close>: the four scores of the dictionary.\<close>

record structure_analysis =
  star_score :: real
  organization_score :: real
  conclusion_score :: real
  structure_final_score :: real

definition conclusion_indicators :: "string list" where
  "conclusion_indicators =
     [''in conclusion'', ''ultimately'', ''as a result'', ''this led to'',
      ''the outcome was'', ''i learned'', ''this taught me'', ''because of this'',
      ''this experience'', ''going forward'', ''the key takeaway'']"

definition analyze_star_structure :: "string \<Rightarrow> structure_analysis" where
  "analyze_star_structure transcript =
     (if transcript = [] \<or> length transcript < 20
      then \<lparr>star_score = 0.0, organization_score = 0.0, conclusion_score = 0.0,
            structure_final_score = 0.0\<rparr>
      else let transcript_lower = py_lower transcript;
               star_found =
                 [list_ex (\<lambda>keyword. py_in keyword transcript_lower) STAR_SITUATION_KEYWORDS,
                  list_ex (\<lambda>keyword. py_in keyword transcript_lower) STAR_TASK_KEYWORDS,
                  list_ex (\<lambda>keyword. py_in keyword transcript_lower) STAR_ACTION_KEYWORDS,
                  list_ex (\<lambda>keyword. py_in keyword transcript_lower) STAR_RESULT_KEYWORDS];
               components_count = length (filter (\<lambda>v. v) star_found);
               star =
                 (if components_count = 4 then 100.0
                  else if components_count = 3 then 80.0
                  else if components_count = 2 then 60.0
                  else if components_count = 1 then 40.0
                  else 25.0);
               sentences = sentences_of transcript;
               organization =
                 (if length sentences \<ge> 3 then min 100 (60 + real (length sentences) * 5)
                  else if length sentences \<ge> 2 then 50.0
                  else 30.0);
               has_conclusion = list_ex (\<lambda>ind. py_in ind transcript_lower) conclusion_indicators;
               has_conclusion =
                 (if sentences \<noteq> [] then
                    has_conclusion \<or>
                    list_ex (\<lambda>ind. py_in ind (py_lower (last sentences)))
                      [''result'', ''learn'', ''outcome'', ''achiev'', ''succe'']
                  else has_conclusion);
               conclusion = (if has_conclusion then 90.0 else 60.0)
           in \<lparr>star_score = star, organization_score = organization,
               conclusion_score = conclusion,
               structure_final_score =
                 py_round (STRUCTURE_WEIGHTS_star_method * star
                           + STRUCTURE_WEIGHTS_organization * organization
                           + STRUCTURE_WEIGHTS_conclusion * conclusion) 1\<rparr>)"

definition calculate_structure_score :: "string \<Rightarrow> structure_analysis" where
  "calculate_structure_score transcript = analyze_star_structure transcript"

text \<open>\<^verbatim>\<open>calculate_confidence_score(...)\<close>: the entry \<^verbatim>\<open>"final_score"\<close>.\<close>

definition calculate_confidence_score :: "real \<Rightarrow> real \<Rightarrow> real \<Rightarrow> real \<Rightarrow> real" where
  "calculate_confidence_score voice_confidence eye_contact_score body_stability_score
       emotion_positivity_score =
     (let final = CONFIDENCE_WEIGHTS_voice_confidence * voice_confidence
                  + CONFIDENCE_WEIGHTS_eye_contact * eye_contact_score
                  + CONFIDENCE_WEIGHTS_body_stability * body_stability_score
                  + CONFIDENCE_WEIGHTS_emotion_positivity * emotion_positivity_score
      in py_round (min 100 (max 0 final)) 1)"

section \<open>Content\<close>

text \<open>
  \<^verbatim>\<open>extract_keywords(text, top_n)\<close>. The dictionary of counts keeps the order in which
  the words were first seen, and \<^verbatim>\<open>sorted(..., reverse=True)\<close> is stable: words of
  equal count stay in that order.
\<close>

definition stop_words :: "string list" where
  "stop_words =
     [''the'', ''a'', ''an'', ''and'', ''or'', ''but'', ''in'', ''on'', ''at'', ''to'',
      ''for'', ''of'', ''with'', ''by'', ''from'', ''as'', ''is'', ''was'', ''are'',
      ''were'', ''been'', ''be'', ''have'', ''has'', ''had'', ''do'', ''does'', ''did'',
      ''will'', ''would'', ''could'', ''should'', ''may'', ''might'', ''must'',
      ''that'', ''which'', ''who'', ''whom'', ''this'', ''these'', ''those'',
      ''i'', ''you'', ''he'', ''she'', ''it'', ''we'', ''they'', ''what'', ''when'',
      ''where'', ''why'', ''how'', ''all'', ''each'', ''every'', ''both'', ''few'',
      ''more'', ''most'', ''other'', ''some'', ''such'', ''no'', ''not'', ''only'',
      ''own'', ''same'', ''so'', ''than'', ''too'', ''very'', ''can'', ''just'']"

fun bump_count :: "string \<Rightarrow> (string \<times> nat) list \<Rightarrow> (string \<times> nat) list" where
  "bump_count w [] = [(w, 1)]"
| "bump_count w ((k, n) # kvs) =
     (if k = w then (k, n + 1) # kvs else (k, n) # bump_count w kvs)"

definition count_words :: "string list \<Rightarrow> (string \<times> nat) list" where
  "count_words ws = foldl (\<lambda>word_counts w. bump_count w word_counts) [] ws"

definition extract_keywords :: "string \<Rightarrow> nat \<Rightarrow> string list" where
  "extract_keywords text top_n =
     (let words = alpha_tokens (py_lower text);
          word_counts = count_words (filter (\<lambda>word. word \<notin> set stop_words) words);
          sorted_words = sort_key (\<lambda>(word, count). - int count) word_counts
      in map fst (take top_n sorted_words))"

text \<open>
  \<^verbatim>\<open>match_keywords(transcript, keywords)\<close>: the keywords found and the keywords missing.
  The inner loop over the set of transcript words stops at the first word that gives a
  stem match, so a keyword is found when some word does.
\<close>

definition keyword_matches :: "string list \<Rightarrow> string \<Rightarrow> bool" where
  "keyword_matches transcript_words keyword =
     (let keyword_lower = py_lower keyword
      in keyword_lower \<in> set transcript_words
         \<or> list_ex (\<lambda>word.
              (length keyword_lower \<ge> 4 \<and> py_in (take 4 keyword_lower) word)
              \<or> (length word \<ge> 4 \<and> py_in (take 4 word) keyword_lower))
            transcript_words)"

definition match_keywords :: "string \<Rightarrow> string list \<Rightarrow> string list \<times> string list" where
  "match_keywords transcript keywords =
     (if transcript = [] \<or> keywords = [] then ([], keywords)
      else let transcript_words = remdups (alpha_tokens (py_lower transcript))
           in (filter (keyword_matches transcript_words) keywords,
               filter (\<lambda>keyword. \<not> keyword_matches transcript_words keyword) keywords))"

text \<open>\<^verbatim>\<open>analyze_content_keywords(transcript, ideal_answer)\<close>.\<close>

record keyword_analysis =
  keywords_extracted :: "string list"
  ka_keywords_found :: "string list"
  ka_keywords_missing :: "string list"
  keyword_coverage :: real
  keyword_score :: real

definition analyze_content_keywords :: "string \<Rightarrow> string \<Rightarrow> keyword_analysis" where
  "analyze_content_keywords transcript ideal_answer =
     (let result = \<lparr>keywords_extracted = [], ka_keywords_found = [], ka_keywords_missing = [],
                    keyword_coverage = 0.0, keyword_score = 0.0\<rparr>
      in if transcript = [] \<or> ideal_answer = [] then result
         else let ideal_keywords = extract_keywords ideal_answer 15;
                  result = result\<lparr>keywords_extracted := ideal_keywords\<rparr>
              in if ideal_keywords = [] then result
                 else let (found, missing) = match_keywords transcript ideal_keywords;
                          coverage = real (length found) / real (length ideal_keywords);
                          score =
                            (if coverage \<ge> 0.8 then 85 + (coverage - 0.8) * 75
                             else if coverage \<ge> 0.6 then 70 + (coverage - 0.6) * 75
                             else if coverage \<ge> 0.4 then 50 + (coverage - 0.4) * 100
                             else if coverage \<ge> 0.2 then 30 + (coverage - 0.2) * 100
                             else coverage * 150)
                      in result\<lparr>ka_keywords_found := found, ka_keywords_missing := missing,
                                keyword_coverage := py_round coverage 3,
                                keyword_score := py_round (min 100 (max 0 score)) 1\<rparr>)"

text \<open>
  \<^verbatim>\<open>calculate_enhanced_content_score(transcript, ideal_answer)\<close>: the entries
  \<^verbatim>\<open>"final_score"\<close> and \<^verbatim>\<open>"semantic_similarity"\<close>.
\<close>

record content_analysis =
  content_final_score :: real
  content_semantic_similarity :: real

definition calculate_enhanced_content_score ::
  "collaborators \<Rightarrow> string \<Rightarrow> string \<Rightarrow> content_analysis" where
  "calculate_enhanced_content_score env transcript ideal_answer =
     (if transcript = [] \<or> length (py_strip transcript) < 10
      then \<lparr>content_final_score = 0.0, content_semantic_similarity = 0.0\<rparr>
      else let keyword_analysis = analyze_content_keywords transcript ideal_answer;
               semantic_sim = semantic_similarity env transcript ideal_answer;
               semantic_score = min 100 (semantic_sim * 110);
               word_count = length (py_split transcript);
               (keyword_weight, semantic_weight) =
                 (if word_count < 30 then (0.6, 0.4)
                  else if word_count > 100 then (0.4, 0.6)
                  else (0.5, 0.5));
               final_score = keyword_score keyword_analysis * keyword_weight
                             + semantic_score * semantic_weight
           in \<lparr>content_final_score = py_round (min 100 (max 0 final_score)) 1,
               content_semantic_similarity = py_round semantic_sim 3\<rparr>)"

section \<open>Quality gates\<close>

text \<open>
  The three patterns of \<^verbatim>\<open>NONSENSE_PATTERNS\<close>, each with \<^verbatim>\<open>re.findall\<close>, which
  returns what the group matched.
  \<^verbatim>\<open>r'\b(asdf|qwerty|lorem|ipsum|blah|test|testing|hello|hi|hey)\b'\<close>: the runs of
  word characters that are one of the ten words.
\<close>

definition nonsense_words :: "string list" where
  "nonsense_words =
     [''asdf'', ''qwerty'', ''lorem'', ''ipsum'', ''blah'', ''test'', ''testing'',
      ''hello'', ''hi'', ''hey'']"

definition findall_nonsense_words :: "string \<Rightarrow> string list" where
  "findall_nonsense_words s = filter (\<lambda>w. w \<in> set nonsense_words) (word_runs s)"

text \<open>
  \<^verbatim>\<open>r'(.)\1{4,}'\<close>: each maximal run of five or more equal characters other than the
  newline gives one match, the character.
\<close>

fun char_runs :: "string \<Rightarrow> (char \<times> nat) list" where
  "char_runs [] = []"
| "char_runs (c # cs) =
     (case char_runs cs of
        [] \<Rightarrow> [(c, 1)]
      | (d, n) # r \<Rightarrow> if c = d then (d, n + 1) # r else (c, 1) # (d, n) # r)"

definition findall_repeated_char :: "string \<Rightarrow> string list" where
  "findall_repeated_char s =
     map (\<lambda>(c, n). [c]) (filter (\<lambda>(c, n). 5 \<le> n \<and> c \<noteq> CHR 0x0A) (char_runs s))"

text \<open>
  \<^verbatim>\<open>r'\b(\w{1,2}\s){5,}'\<close>: a group is one or two word characters and one white-space
  character; five or more groups in a row, the first at a word boundary, match, and the
  last group is returned.
\<close>

fun short_word_group :: "string \<Rightarrow> nat" where
  "short_word_group (a # b # c # r) =
     (if is_word_char a \<and> is_space b then 2
      else if is_word_char a \<and> is_word_char b \<and> is_space c then 3
      else 0)"
| "short_word_group [a, b] = (if is_word_char a \<and> is_space b then 2 else 0)"
| "short_word_group s = 0"

fun short_word_groups :: "nat \<Rightarrow> string \<Rightarrow> string list" where
  "short_word_groups 0 s = []"
| "short_word_groups (Suc fuel) s =
     (let g = short_word_group s
      in if g = 0 then [] else take g s # short_word_groups fuel (drop g s))"

fun findall_short_words :: "nat \<Rightarrow> char option \<Rightarrow> string \<Rightarrow> string list" where
  "findall_short_words skip prev [] = []"
| "findall_short_words skip prev (c # cs) =
     (if 0 < skip then findall_short_words (skip - 1) (Some c) cs
      else let groups = short_word_groups (length (c # cs)) (c # cs)
           in if word_boundary prev (Some c) \<and> 5 \<le> length groups
              then last groups # findall_short_words (length (concat groups) - 1) (Some c) cs
              else findall_short_words 0 (Some c) cs)"

text \<open>
  \<^verbatim>\<open>detect_nonsense(transcript)\<close>. An entry of \<^verbatim>\<open>patterns_found\<close> is what a pattern
  matched, or one of the two texts the function builds itself.
\<close>

datatype nonsense_pattern = Matched string | WordRepeated nat | LowRecognition

datatype nonsense_reason = NoReason | InputTooShort | DetectedPatterns "nonsense_pattern list"

record nonsense_result =
  is_nonsense :: bool
  nonsense_confidence :: real
  patterns_found :: "nonsense_pattern list"
  reason :: nonsense_reason

definition common_words :: "string list" where
  "common_words =
     [''i'', ''the'', ''a'', ''an'', ''and'', ''or'', ''but'', ''is'', ''are'', ''was'', ''were'',
      ''have'', ''has'', ''had'', ''do'', ''does'', ''did'', ''will'', ''would'', ''could'',
      ''should'', ''can'', ''may'', ''my'', ''your'', ''our'', ''their'', ''this'', ''that'',
      ''it'', ''he'', ''she'', ''we'', ''they'', ''you'', ''me'', ''him'', ''her'', ''us'', ''them'',
      ''what'', ''when'', ''where'', ''why'', ''how'', ''which'', ''who'', ''whom'',
      ''to'', ''for'', ''with'', ''by'', ''from'', ''at'', ''in'', ''on'', ''of'', ''as'',
      ''so'', ''if'', ''then'', ''than'', ''because'', ''while'', ''although'', ''though'',
      ''not'', ''no'', ''yes'', ''just'', ''only'', ''also'', ''very'', ''too'', ''much'',
      ''more'', ''most'', ''some'', ''any'', ''all'', ''each'', ''every'', ''both'', ''few'',
      ''many'', ''other'', ''another'', ''such'', ''like'', ''even'', ''still'', ''already'',
      ''been'', ''being'', ''done'', ''doing'', ''go'', ''going'', ''get'', ''getting'',
      ''make'', ''making'', ''take'', ''taking'', ''know'', ''think'', ''see'', ''want'',
      ''need'', ''use'', ''find'', ''give'', ''tell'', ''work'', ''call'', ''try'', ''ask'',
      ''come'', ''put'', ''mean'', ''keep'', ''let'', ''begin'', ''seem'', ''help'', ''show'',
      ''hear'', ''play'', ''run'', ''move'', ''live'', ''believe'', ''hold'', ''bring'',
      ''about'', ''into'', ''over'', ''after'', ''before'', ''between'', ''under'', ''again'',
      ''there'', ''here'', ''now'', ''always'', ''never'', ''often'', ''sometimes'']"

text \<open>The largest value of a dictionary of counts, \<^verbatim>\<open>max(word_counts.values())\<close>.\<close>

definition max_count :: "(string \<times> nat) list \<Rightarrow> nat" where
  "max_count word_counts = foldr max (map snd word_counts) 0"

text \<open>
  The word-recognition check of \<^verbatim>\<open>detect_nonsense\<close>: the ratio of the words that are
  common words or longer than three characters, and whether the signal is added.
\<close>

definition recognition_ratio :: "string list \<Rightarrow> real" where
  "recognition_ratio words =
     (let recognized_words =
            length (filter (\<lambda>w. w \<in> set common_words \<or> length w > 3) words)
      in if words \<noteq> [] then real recognized_words / real (length words) else 0)"

definition detect_nonsense :: "string \<Rightarrow> nonsense_result" where
  "detect_nonsense transcript =
     (if transcript = [] \<or> length (py_strip transcript) < 5
      then \<lparr>is_nonsense = True, nonsense_confidence = 1.0, patterns_found = [],
            reason = InputTooShort\<rparr>
      else let transcript_lower = py_lower transcript;
               found = map Matched
                 (take 3 (findall_nonsense_words transcript_lower)
                  @ take 3 (findall_repeated_char transcript_lower)
                  @ take 3 (findall_short_words 0 None transcript_lower));
               words = py_split transcript_lower;
               found =
                 (if length words > 5 then
                    let max_c = max_count (count_words words)
                    in if real max_c / real (length words) > 0.3
                       then found @ [WordRepeated max_c] else found
                  else found);
               found =
                 (if recognition_ratio words < 0.3 \<and> length words > 10
                  then found @ [LowRecognition] else found)
           in if found \<noteq> [] then
                let confidence = min 1.0 (real (length found) * 0.3)
                in \<lparr>is_nonsense = (confidence \<ge> 0.5), nonsense_confidence = confidence,
                    patterns_found = found, reason = DetectedPatterns (take 3 found)\<rparr>
              else \<lparr>is_nonsense = False, nonsense_confidence = 0.0, patterns_found = [],
                    reason = NoReason\<rparr>)"

text \<open>\<^verbatim>\<open>calculate_answer_coherence(transcript)\<close>.\<close>

definition connectors :: "string list" where
  "connectors =
     [''because'', ''therefore'', ''however'', ''although'', ''while'', ''since'',
      ''so'', ''but'', ''and'', ''then'', ''first'', ''second'', ''finally'']"

definition calculate_answer_coherence :: "string \<Rightarrow> real" where
  "calculate_answer_coherence transcript =
     (if transcript = [] \<or> length (py_strip transcript) < 10 then 0.0
      else let score = 50.0;
               words = py_split transcript;
               word_count = length words;
               sentences = sentences_of transcript;
               score =
                 (if length sentences \<ge> 2 then score + 15
                  else if length sentences = 1 \<and> word_count \<ge> 15 then score + 5
                  else score - 10);
               unique_words = remdups (map py_lower (filter (\<lambda>w. length w > 2) words));
               diversity_ratio =
                 (if word_count > 0 then real (length unique_words) / real word_count else 0);
               score =
                 (if diversity_ratio \<ge> 0.6 then score + 15
                  else if diversity_ratio \<ge> 0.4 then score + 5
                  else if diversity_ratio < 0.25 then score - 15
                  else score);
               transcript_lower = py_lower transcript;
               connector_count = length (filter (\<lambda>c. py_in c transcript_lower) connectors);
               score =
                 (if connector_count \<ge> 3 then score + 10
                  else if connector_count \<ge> 1 then score + 5
                  else score);
               score =
                 (if 30 \<le> word_count \<and> word_count \<le> 200 then score + 10
                  else if word_count < 15 then score - 15
                  else if word_count > 300 then score - 5
                  else score)
           in max 0 (min 100 score))"

text \<open>
  The result of the scoring functions. \<^verbatim>\<open>score_answer\<close> returns a dictionary; the
  record has its numeric entries (the entry \<^verbatim>\<open>"structure"\<close> is the field
  \<open>structure_score\<close>), and the three entries that are only there when the
  quality gates have run are optional. The feedback texts are left out.
\<close>

datatype quality_issue = Issue string | NonsenseIssue nonsense_reason

record score_base =
  content :: real
  delivery :: real
  communication :: real
  final :: real
  wpm :: real
  filler_count :: nat
  grammar_errors :: nat
  relevance :: real

record score_result = score_base +
  voice :: real
  confidence :: real
  structure_score :: real
  quality_issues :: "quality_issue list option"
  quality_penalties :: "(string \<times> real) list option"
  raw_final :: "real option"

text \<open>
  \<^verbatim>\<open>apply_quality_gates(transcript, scores, ideal_answer)\<close>. The function fills its
  result gate by gate; each gate is a function on the result.
\<close>

record quality_result =
  issues :: "quality_issue list"
  penalties :: "(string \<times> real) list"
  total_penalty :: real
  score_cap :: "int option"

definition add_penalty :: "quality_issue \<Rightarrow> string \<Rightarrow> real \<Rightarrow> quality_result \<Rightarrow> quality_result" where
  "add_penalty issue key penalty result =
     result\<lparr>issues := issues result @ [issue],
            penalties := AList.update key penalty (penalties result),
            total_penalty := total_penalty result + penalty\<rparr>"

definition gate_min_word_count :: "nat \<Rightarrow> quality_result \<Rightarrow> quality_result" where
  "gate_min_word_count word_count result =
     (let min_words = QG_min_word_count_threshold
      in if word_count < min_words then
           let result = add_penalty (Issue QG_min_word_count_message) ''short_answer''
                          QG_min_word_count_penalty result
           in if word_count < 10 then result\<lparr>score_cap := Some SCORE_CAPS_very_short\<rparr>
              else if word_count < min_words then result\<lparr>score_cap := Some SCORE_CAPS_short\<rparr>
              else result
         else result)"

definition gate_min_unique_words :: "string list \<Rightarrow> quality_result \<Rightarrow> quality_result" where
  "gate_min_unique_words unique_words result =
     (if length unique_words < QG_min_unique_words_threshold
      then add_penalty (Issue QG_min_unique_words_message) ''low_vocabulary''
             QG_min_unique_words_penalty result
      else result)"

definition gate_max_filler_ratio :: "nat \<Rightarrow> nat \<Rightarrow> quality_result \<Rightarrow> quality_result" where
  "gate_max_filler_ratio fillers word_count result =
     (let filler_ratio = (if word_count > 0 then real fillers / real word_count else 0)
      in if filler_ratio > QG_max_filler_ratio_threshold
         then add_penalty (Issue QG_max_filler_ratio_message) ''excessive_fillers''
                QG_max_filler_ratio_penalty result
         else result)"

definition gate_min_relevance :: "real \<Rightarrow> string \<Rightarrow> quality_result \<Rightarrow> quality_result" where
  "gate_min_relevance rel ideal_answer result =
     (if rel < QG_min_relevance_threshold \<and> ideal_answer \<noteq> [] then
        let result = add_penalty (Issue QG_min_relevance_message) ''off_topic''
                       QG_min_relevance_penalty result;
            cap_or_100 = (case score_cap result of
                            None \<Rightarrow> 100
                          | Some cap \<Rightarrow> if cap = 0 then 100 else cap)
        in result\<lparr>score_cap := Some (min cap_or_100 SCORE_CAPS_off_topic)\<rparr>
      else result)"

definition gate_max_repetition :: "string list \<Rightarrow> quality_result \<Rightarrow> quality_result" where
  "gate_max_repetition words result =
     (if length words > 10 then
        let word_counts = count_words (map py_lower (filter (\<lambda>w. length w > 3) words))
        in if word_counts \<noteq> [] then
             let max_repetition = real (max_count word_counts) / real (length word_counts)
             in if max_repetition > QG_max_repetition_threshold
                then add_penalty (Issue QG_max_repetition_message) ''repetitive''
                       QG_max_repetition_penalty result
                else result
           else result
      else result)"

definition gate_nonsense :: "string \<Rightarrow> quality_result \<Rightarrow> quality_result" where
  "gate_nonsense transcript result =
     (let nonsense_result = detect_nonsense transcript
      in if is_nonsense nonsense_result then
           (add_penalty (NonsenseIssue (reason nonsense_result)) ''nonsense'' 50 result)
             \<lparr>score_cap := Some SCORE_CAPS_nonsense\<rparr>
         else result)"

definition gate_coherence :: "string \<Rightarrow> quality_result \<Rightarrow> quality_result" where
  "gate_coherence transcript result =
     (let coherence = calculate_answer_coherence transcript
      in if coherence < MIN_COHERENCE_SCORE
         then add_penalty (Issue ''Answer lacks coherent structure'') ''incoherent'' 30 result
         else result)"

definition gate_structure :: "real \<Rightarrow> quality_result \<Rightarrow> quality_result" where
  "gate_structure structure_value result =
     (if structure_value < 30 then
        (if score_cap result = None \<or> the (score_cap result) > SCORE_CAPS_no_structure
         then result\<lparr>score_cap := Some SCORE_CAPS_no_structure\<rparr>
         else result)
      else result)"

definition apply_quality_gates :: "string \<Rightarrow> score_result \<Rightarrow> string \<Rightarrow> quality_result" where
  "apply_quality_gates transcript scores ideal_answer =
     (let result = \<lparr>issues = [], penalties = [], total_penalty = 0.0, score_cap = None\<rparr>
      in if transcript = []
         then result\<lparr>issues := [Issue ''No answer provided''], score_cap := Some 0\<rparr>
         else let words = py_split transcript;
                  word_count = length words;
                  unique_words = remdups (map py_lower (filter (\<lambda>w. length w > 2) words));
                  result = gate_min_word_count word_count result;
                  result = gate_min_unique_words unique_words result;
                  result = gate_max_filler_ratio (filler_count scores) word_count result;
                  result = gate_min_relevance (relevance scores) ideal_answer result;
                  result = gate_max_repetition words result;
                  result = gate_nonsense transcript result;
                  result = gate_coherence transcript result;
                  result = gate_structure (structure_score scores) result
              in result)"

section \<open>Scoring an answer\<close>

text \<open>\<^verbatim>\<open>_clamp_score(score)\<close>: clamp to the valid range and round.\<close>

definition clamp_score :: "real \<Rightarrow> real" where
  "clamp_score score = py_round (max MIN_SCORE (min MAX_SCORE score)) 1"

text \<open>
  The optional video signals: a dictionary with up to three entries; \<^verbatim>\<open>.get(key, 70.0)\<close>
  reads an entry.
\<close>

record video_analysis =
  eye_contact :: "real option"
  body_stability :: "real option"
  emotion_positivity :: "real option"

definition get_or :: "'a option \<Rightarrow> 'a \<Rightarrow> 'a" where
  "get_or x d = (case x of None \<Rightarrow> d | Some v \<Rightarrow> v)"

text \<open>The weighted sum of the six category scores, \<^verbatim>\<open>raw_final_score\<close>.\<close>

definition raw_final_score :: "score_result \<Rightarrow> real" where
  "raw_final_score result =
     content result * SCORE_WEIGHTS_content
     + delivery result * SCORE_WEIGHTS_delivery
     + communication result * SCORE_WEIGHTS_communication
     + voice result * SCORE_WEIGHTS_voice
     + confidence result * SCORE_WEIGHTS_confidence
     + structure_score result * SCORE_WEIGHTS_structure"

text \<open>
  \<^verbatim>\<open>score_answer(transcript, duration_seconds, ideal_answer, audio_path, video_analysis)\<close>,
  the full mode with six scores. The function is given in two parts: \<open>category_scores\<close>
  is its steps 1 to 6, which fill the six category scores and the metrics of the initial
  result, and \<open>score_answer\<close> is the guard for a short transcript, the quality gates
  (step 7) and the final score (step 8).
\<close>

definition initial_result :: score_result where
  "initial_result =
     \<lparr>content = 0.0, delivery = 0.0, communication = 0.0, final = 0.0,
      wpm = 0.0, filler_count = 0, grammar_errors = 0, relevance = 0.0,
      voice = 70.0, confidence = 70.0, structure_score = 0.0,
      quality_issues = None, quality_penalties = None, raw_final = None\<rparr>"

definition category_scores ::
  "collaborators \<Rightarrow> string \<Rightarrow> real \<Rightarrow> string \<Rightarrow> string option \<Rightarrow> video_analysis option
   \<Rightarrow> score_result" where
  "category_scores env transcript duration_seconds ideal_answer audio_path video =
     (let result = initial_result;
          content_analysis = calculate_enhanced_content_score env transcript ideal_answer;
          result = result\<lparr>content := clamp_score (content_final_score content_analysis),
                          relevance := content_semantic_similarity content_analysis\<rparr>;
          delivery_score = 100.0;
          w = compute_wpm transcript duration_seconds;
          result = result\<lparr>wpm := w\<rparr>;
          wpm_penalty = snd (get_wpm_assessment w);
          delivery_score = delivery_score - real_of_int wpm_penalty;
          fillers = fst (count_fillers transcript);
          result = result\<lparr>filler_count := fillers\<rparr>;
          filler_penalty = min MAX_FILLER_PENALTY (real fillers * FILLER_PENALTY_PER_WORD);
          delivery_score = delivery_score - filler_penalty;
          result = result\<lparr>delivery := clamp_score delivery_score\<rparr>;
          comm_analysis = calculate_enhanced_communication_score env transcript;
          result = result\<lparr>communication := clamp_score (comm_final_score comm_analysis),
                          grammar_errors := comm_grammar_errors comm_analysis\<rparr>;
          voice_result =
            (case audio_path of
               None \<Rightarrow> None
             | Some path \<Rightarrow> if path = [] then None else analyze_voice env path);
          result = result\<lparr>voice := (case voice_result of
                                      Some (overall, vc) \<Rightarrow> clamp_score overall
                                    | None \<Rightarrow> 70.0)\<rparr>;
          voice_confidence = (case voice_result of Some (overall, vc) \<Rightarrow> vc | None \<Rightarrow> 70.0);
          structure_analysis = calculate_structure_score transcript;
          result = result\<lparr>structure_score :=
                            clamp_score (structure_final_score structure_analysis)\<rparr>;
          eye = (case video of None \<Rightarrow> 70.0 | Some v \<Rightarrow> get_or (eye_contact v) 70.0);
          body = (case video of None \<Rightarrow> 70.0 | Some v \<Rightarrow> get_or (body_stability v) 70.0);
          emotion = (case video of None \<Rightarrow> 70.0 | Some v \<Rightarrow> get_or (emotion_positivity v) 70.0);
          confidence_result = calculate_confidence_score voice_confidence eye body emotion
      in result\<lparr>confidence := clamp_score confidence_result\<rparr>)"

definition score_answer ::
  "collaborators \<Rightarrow> string \<Rightarrow> real \<Rightarrow> string \<Rightarrow> string option \<Rightarrow> video_analysis option
   \<Rightarrow> score_result" where
  "score_answer env transcript duration_seconds ideal_answer audio_path video =
     (if transcript = [] \<or> length (py_strip transcript) < 5 then initial_result
      else
        let result = category_scores env transcript duration_seconds ideal_answer
                       audio_path video;
            quality_result = apply_quality_gates transcript result ideal_answer;
            result = result\<lparr>quality_issues := Some (issues quality_result),
                            quality_penalties := Some (penalties quality_result)\<rparr>;
            raw = raw_final_score result;
            final_score = raw - total_penalty quality_result;
            final_score =
              (case score_cap quality_result of
                 None \<Rightarrow> final_score
               | Some cap \<Rightarrow> min final_score (real_of_int cap))
        in result\<lparr>final := clamp_score final_score, raw_final := Some (clamp_score raw)\<rparr>)"

text \<open>
  \<^verbatim>\<open>score_answer_by_keywords(transcript, keywords, duration_seconds, ideal_answer)\<close>, the
  keyword-only mode.
\<close>

record keyword_result = score_base +
  keywords_found :: "string list"
  keywords_missing :: "string list"
  keyword_match_pct :: real

definition keyword_final_score :: "keyword_result \<Rightarrow> real" where
  "keyword_final_score result =
     content result * SCORE_WEIGHTS_content
     + delivery result * SCORE_WEIGHTS_delivery
     + communication result * SCORE_WEIGHTS_communication"

definition initial_keyword_result :: keyword_result where
  "initial_keyword_result =
     \<lparr>content = 0.0, delivery = 0.0, communication = 0.0, final = 0.0,
      wpm = 0.0, filler_count = 0, grammar_errors = 0, relevance = 0.0,
      keywords_found = [], keywords_missing = [], keyword_match_pct = 0.0\<rparr>"

text \<open>Step 1, the content score: the initial result with the entries the step sets.\<close>

definition keyword_content ::
  "collaborators \<Rightarrow> string \<Rightarrow> string list \<Rightarrow> string option \<Rightarrow> keyword_result" where
  "keyword_content env transcript keywords ideal_answer =
     (let result = initial_keyword_result
      in if keywords \<noteq> [] \<and> length keywords > 0 then
           let (found, missing) = match_keywords transcript keywords;
               match_pct = (real (length found) / real (length keywords)) * 100
           in result\<lparr>keywords_found := found, keywords_missing := missing,
                     keyword_match_pct := py_round match_pct 1,
                     content := py_round (min 100.0 (max 0.0 match_pct)) 1,
                     relevance := py_round (real (length found) / real (length keywords)) 3\<rparr>
         else
           (case ideal_answer of
              None \<Rightarrow> result\<lparr>content := 50.0\<rparr>
            | Some ideal \<Rightarrow>
                if ideal \<noteq> [] then
                  let rel = semantic_similarity env transcript ideal
                  in result\<lparr>relevance := py_round rel 3, content := py_round (rel * 100) 1\<rparr>
                else result\<lparr>content := 50.0\<rparr>))"

text \<open>The guard, steps 2 and 3 (delivery and communication) and step 4, the final score.\<close>

definition score_answer_by_keywords ::
  "collaborators \<Rightarrow> string \<Rightarrow> string list \<Rightarrow> real \<Rightarrow> string option \<Rightarrow> keyword_result" where
  "score_answer_by_keywords env transcript keywords duration_seconds ideal_answer =
     (if transcript = [] \<or> length (py_strip transcript) < 5 then initial_keyword_result
      else
        let result = keyword_content env transcript keywords ideal_answer;
            delivery_score = 100.0;
            w = compute_wpm transcript duration_seconds;
            wpm_penalty = snd (get_wpm_assessment w);
            delivery_score = delivery_score - real_of_int wpm_penalty;
            fillers = fst (count_fillers transcript);
            filler_penalty = min 20.0 (real fillers * 3);
            delivery_score = delivery_score - filler_penalty;
            comm_analysis = calculate_enhanced_communication_score env transcript;
            result = result\<lparr>wpm := w, filler_count := fillers,
                            delivery := py_round (max 0.0 (min 100.0 delivery_score)) 1,
                            communication :=
                              py_round (max 0.0 (min 100.0 (comm_final_score comm_analysis))) 1,
                            grammar_errors := comm_grammar_errors comm_analysis\<rparr>;
            final_score = keyword_final_score result
        in result\<lparr>final := py_round (max 0.0 (min 100.0 final_score)) 1\<rparr>)"

section \<open>Reference definitions for the properties\<close>

text \<open>
  The environment in which no collaborator is available: the encoder and the grammar
  checker could not be loaded (the code takes the Jaccard and the regular-expression
  fallbacks) and the voice analysis raises. No cosine is computed there; its rounding
  error is set to 0.
\<close>

definition no_collaborators :: collaborators where
  "no_collaborators =
     \<lparr>encoder = None, language_tool = None, analyze_voice = (\<lambda>path. None),
      cosine_error = (\<lambda>vec1 vec2. 0)\<rparr>"

text \<open>
  The final score as the specification words it:
  \<open>clamp(min(rawFinal - qualityPenaltyTotal, scoreCap ?? 100), 0, 100)\<close>.
\<close>

definition spec_final :: "real \<Rightarrow> real \<Rightarrow> int option \<Rightarrow> real" where
  "spec_final rawFinal qualityPenaltyTotal scoreCap =
     max 0 (min 100 (min (rawFinal - qualityPenaltyTotal)
                         (case scoreCap of None \<Rightarrow> 100 | Some cap \<Rightarrow> real_of_int cap)))"

text \<open>
  An example evaluation in the full mode: an answer of twelve words spoken in 4.8 seconds, used
  as its own ideal answer, without audio or video and with no collaborator available;
  and the quality-gate outputs for it.
\<close>

definition example_answer :: string where
  "example_answer = ''Our team built fast data tools then fixed bugs and shipped code''"

definition example_result :: score_result where
  "example_result =
     score_answer no_collaborators example_answer 4.8 example_answer None None"

definition example_gates :: quality_result where
  "example_gates = apply_quality_gates example_answer example_result example_answer"

section \<open>Properties\<close>

subsection \<open>Rounding and clamping\<close>

lemma round_half_even_ge: "of_int k \<le> x \<Longrightarrow> k \<le> round_half_even x"
proof -
  assume "of_int k \<le> x"
  then have "k \<le> \<lfloor>x\<rfloor>" by (simp add: le_floor_iff)
  then show ?thesis by (simp add: round_half_even_def Let_def)
qed

lemma round_half_even_le: "x \<le> of_int k \<Longrightarrow> round_half_even x \<le> k"
proof -
  assume h: "x \<le> of_int k"
  have f: "\<lfloor>x\<rfloor> \<le> k" using h by (simp add: floor_le_iff)
  have "x - of_int \<lfloor>x\<rfloor> \<ge> 1 / 2 \<Longrightarrow> \<lfloor>x\<rfloor> + 1 \<le> k"
  proof -
    assume "x - of_int \<lfloor>x\<rfloor> \<ge> 1 / 2"
    then have "of_int \<lfloor>x\<rfloor> < x" by simp
    with h have "of_int \<lfloor>x\<rfloor> < (of_int k :: real)" by linarith
    then show ?thesis by simp
  qed
  with f show ?thesis by (auto simp: round_half_even_def Let_def)
qed

lemma py_round_nonneg: "0 \<le> x \<Longrightarrow> 0 \<le> py_round x n"
proof -
  assume "0 \<le> x"
  then have "of_int 0 \<le> x * 10 ^ n" by simp
  then have "0 \<le> round_half_even (x * 10 ^ n)" by (rule round_half_even_ge)
  then show ?thesis by (simp add: py_round_def)
qed

lemma py_round_le: "x \<le> of_int k \<Longrightarrow> py_round x n \<le> of_int k"
proof -
  assume "x \<le> of_int k"
  then have "x * 10 ^ n \<le> of_int (k * 10 ^ n)" by simp
  then have "round_half_even (x * 10 ^ n) \<le> k * 10 ^ n" by (rule round_half_even_le)
  then have "(of_int (round_half_even (x * 10 ^ n)) :: real) \<le> of_int (k * 10 ^ n)"
    by (simp only: of_int_le_iff)
  then show ?thesis by (simp add: py_round_def divide_le_eq)
qed

lemma clamp_score_range: "0 \<le> clamp_score x \<and> clamp_score x \<le> 100"
proof -
  have "0 \<le> max MIN_SCORE (min MAX_SCORE x)" by (simp add: MIN_SCORE_def)
  moreover have "max MIN_SCORE (min MAX_SCORE x) \<le> of_int 100"
    by (simp add: MIN_SCORE_def MAX_SCORE_def)
  ultimately show ?thesis
    unfolding clamp_score_def using py_round_nonneg py_round_le [where k = 100] by simp
qed

lemma py_round_of_int: "py_round (of_int k) n = of_int k"
  by (simp add: py_round_def round_half_even_def Let_def flip: of_int_power of_int_mult)

lemma round_half_even_error: "\<bar>of_int (round_half_even x) - x\<bar> \<le> 1 / 2"
proof -
  have "of_int \<lfloor>x\<rfloor> \<le> x" and "x < of_int \<lfloor>x\<rfloor> + 1" by linarith+
  then show ?thesis by (auto simp: round_half_even_def Let_def)
qed

lemma py_round_error: "\<bar>py_round x n - x\<bar> \<le> 1 / (2 * 10 ^ n)"
proof -
  have "py_round x n - x = (of_int (round_half_even (x * 10 ^ n)) - x * 10 ^ n) / 10 ^ n"
    by (simp add: py_round_def diff_divide_distrib)
  then have "\<bar>py_round x n - x\<bar> = \<bar>of_int (round_half_even (x * 10 ^ n)) - x * 10 ^ n\<bar> / 10 ^ n"
    by simp
  also have "\<dots> \<le> (1 / 2) / 10 ^ n"
    by (rule divide_right_mono [OF round_half_even_error]) simp
  finally show ?thesis by simp
qed

lemma py_round_multiple: "\<exists>k :: int. py_round x n = of_int k / 10 ^ n"
  unfolding py_round_def by (rule exI) (rule refl)

subsection \<open>Strings\<close>

lemma to_lower_not_upper: "\<not> is_upper (to_lower c)"
  by (auto simp: to_lower_def is_upper_def Let_def)

lemma to_lower_idem: "to_lower (to_lower c) = to_lower c"
  using to_lower_not_upper [of c] by (simp add: to_lower_def [of "to_lower c"])

lemma is_space_to_lower: "is_space (to_lower c) = is_space c"
  by (auto simp: to_lower_def is_upper_def is_space_def Let_def)

lemma to_lower_fixed: "\<not> is_upper c \<Longrightarrow> to_lower c = c"
  by (simp add: to_lower_def)

lemma py_lower_fixed: "\<forall>c\<in>set s. \<not> is_upper c \<Longrightarrow> py_lower s = s"
  by (induction s) (simp_all add: py_lower_def to_lower_fixed)

lemma py_lower_no_upper: "c \<in> set (py_lower s) \<Longrightarrow> \<not> is_upper c"
  by (auto simp: py_lower_def to_lower_not_upper)

lemma length_py_lower: "length (py_lower s) = length s"
  by (simp add: py_lower_def)

lemma split_on_chars:
  "w \<in> set (split_on sep cur s) \<Longrightarrow> x \<in> set w \<Longrightarrow> x \<in> set cur \<or> x \<in> set s"
proof (induction s arbitrary: cur)
  case Nil
  then show ?case by (simp split: if_splits)
next
  case (Cons c s)
  show ?case
  proof (cases "sep c")
    case True
    then have "w = cur \<or> w \<in> set (split_on sep [] s)"
      using Cons.prems(1) by (simp split: if_splits)
    then show ?thesis using Cons.IH [of "[]"] Cons.prems(2) by auto
  next
    case False
    then have "w \<in> set (split_on sep (cur @ [c]) s)" using Cons.prems(1) by simp
    then show ?thesis using Cons.IH [of "cur @ [c]"] Cons.prems(2) by auto
  qed
qed

lemma split_on_Nil_iff: "split_on sep cur s = [] \<longleftrightarrow> cur = [] \<and> (\<forall>c\<in>set s. sep c)"
  by (induction s arbitrary: cur) auto

lemma split_on_map:
  "(\<And>c. sep (f c) = sep c) \<Longrightarrow>
     split_on sep (map f cur) (map f s) = map (map f) (split_on sep cur s)"
proof (induction s arbitrary: cur)
  case Nil
  then show ?case by simp
next
  case (Cons c s)
  have "split_on sep (map f (cur @ [c])) (map f s) = map (map f) (split_on sep (cur @ [c]) s)"
    using Cons by blast
  moreover have "split_on sep (map f []) (map f s) = map (map f) (split_on sep [] s)"
    using Cons by blast
  ultimately show ?case using Cons.prems by simp
qed

lemma py_split_lower: "py_split (py_lower s) = map py_lower (py_split s)"
  using split_on_map [of is_space to_lower "[]" s]
  by (simp add: py_split_def py_lower_def is_space_to_lower)

lemma py_strip_all_space: "\<forall>c\<in>set s. is_space c \<Longrightarrow> py_strip s = []"
proof -
  assume a: "\<forall>c\<in>set s. is_space c"
  have d: "dropWhile is_space s = []" using a by (simp add: dropWhile_eq_Nil_conv)
  show ?thesis unfolding py_strip_def d by simp
qed

lemma py_split_nonempty: "py_strip s \<noteq> [] \<Longrightarrow> py_split s \<noteq> []"
  using py_strip_all_space [of s] by (auto simp: py_split_def split_on_Nil_iff)

subsection \<open>Speaking pace\<close>

lemmas wpm_consts = WPM_TOO_SLOW_def WPM_TOO_FAST_def OPTIMAL_WPM_MIN_def OPTIMAL_WPM_MAX_def

text \<open>
  C8 (as stated, refuted). At 99 words per minute the code truncates the product
  \<open>(100 - 99) * 0.5\<close> to the integer 0, so the penalty is 0: it is not the linear
  penalty of the claim, whichever bound the distance is measured from.
\<close>

theorem C8_pace_penalty_counterexample:
  "real_of_int (snd (get_wpm_assessment 99)) \<noteq> spec_pace_penalty 100 180 99
   \<and> real_of_int (snd (get_wpm_assessment 99)) \<noteq> spec_pace_penalty 130 160 99
   \<and> snd (get_wpm_assessment 99) = 0"
  by (simp add: get_wpm_assessment_def spec_pace_penalty_def wpm_consts py_int_def)

text \<open>
  C8 (amended). The pace penalty is 0 for a pace in \<open>[130, 160]\<close>, 5 in the shoulders
  \<open>[100, 130)\<close> and \<open>(160, 180]\<close>, and outside \<open>[100, 180]\<close> it is the integer part of
  the distance from the nearer of 100 and 180 times 0.5 (below 100) or 0.3 (above 180),
  capped at 30.
\<close>

theorem C8_pace_penalty:
  "snd (get_wpm_assessment w) =
     (if 130 \<le> w \<and> w \<le> 160 then 0
      else if 100 \<le> w \<and> w \<le> 180 then 5
      else if w < 100 then min 30 \<lfloor>(100 - w) * 0.5\<rfloor>
      else min 30 \<lfloor>(w - 180) * 0.3\<rfloor>)"
  by (simp add: get_wpm_assessment_def wpm_consts py_int_def)

theorem C8_pace_penalty_witness:
  "snd (get_wpm_assessment 145) = 0 \<and> snd (get_wpm_assessment 120) = 5
   \<and> snd (get_wpm_assessment 170) = 5 \<and> snd (get_wpm_assessment 90) = 5
   \<and> snd (get_wpm_assessment 20) = 30 \<and> snd (get_wpm_assessment 250) = 21"
  using C8_pace_penalty [of 145] C8_pace_penalty [of 120] C8_pace_penalty [of 170]
    C8_pace_penalty [of 90] C8_pace_penalty [of 20] C8_pace_penalty [of 250]
  by simp

subsection \<open>Nonsense detection\<close>

text \<open>
  The run of short-word groups is computed with the length of the text as fuel; each
  group takes at least two characters, so any larger fuel gives the same groups.
\<close>

lemma short_word_group_bound: "short_word_group s \<noteq> 0 \<Longrightarrow> 2 \<le> short_word_group s \<and> short_word_group s \<le> length s"
  by (induction s rule: short_word_group.induct) (auto split: if_splits)

lemma short_word_groups_fuel:
  "length s \<le> n \<Longrightarrow> length s \<le> m \<Longrightarrow> short_word_groups n s = short_word_groups m s"
proof (induction n arbitrary: s m)
  case 0
  then have "s = []" by simp
  then show ?case by (cases m) simp_all
next
  case (Suc n)
  show ?case
  proof (cases "short_word_group s = 0")
    case True
    have "short_word_groups (Suc n) s = []" using True by simp
    moreover have "short_word_groups m s = []" using True by (cases m) simp_all
    ultimately show ?thesis by simp
  next
    case False
    then have b: "2 \<le> short_word_group s \<and> short_word_group s \<le> length s"
      by (rule short_word_group_bound)
    then obtain m' where m: "m = Suc m'" using Suc.prems(2) by (cases m) auto
    have "length (drop (short_word_group s) s) \<le> n" using b Suc.prems(1) by auto
    moreover have "length (drop (short_word_group s) s) \<le> m'" using b Suc.prems(2) m by auto
    ultimately have "short_word_groups n (drop (short_word_group s) s) =
        short_word_groups m' (drop (short_word_group s) s)"
      by (rule Suc.IH)
    then show ?thesis using False by (simp add: m Let_def)
  qed
qed

lemma recognition_ratio_one:
  "words \<noteq> [] \<Longrightarrow> \<forall>w\<in>set words. 3 < length w \<Longrightarrow> recognition_ratio words = 1"
proof -
  assume ne: "words \<noteq> []" and long: "\<forall>w\<in>set words. 3 < length w"
  have "filter (\<lambda>w. w \<in> set common_words \<or> length w > 3) words = words"
    using long by (simp add: filter_id_conv)
  then show ?thesis using ne by (simp add: recognition_ratio_def)
qed

lemma recognition_reached:
  assumes "\<forall>w\<in>set (py_split t). 3 < length w"
    and "\<not> (t = [] \<or> length (py_strip t) < 5)"
  shows "recognition_ratio (py_split (py_lower t)) = 1"
proof -
  have "py_strip t \<noteq> []" using assms(2) by auto
  then have "py_split t \<noteq> []" by (rule py_split_nonempty)
  then have ne: "py_split (py_lower t) \<noteq> []" by (simp add: py_split_lower)
  have "\<forall>w\<in>set (py_split (py_lower t)). 3 < length w"
    using assms(1) by (simp add: py_split_lower length_py_lower)
  with ne show ?thesis by (rule recognition_ratio_one)
qed

text \<open>
  C10. In \<^verbatim>\<open>detect_nonsense\<close> a word longer than three characters counts as
  recognized. For a transcript all of whose white-space separated words are longer than
  three characters the signal "low word recognition ratio" is never added, and whenever
  the check is reached (the transcript passes the guard for a short input) the
  recognition ratio is exactly 1, whether or not the words are English.
\<close>

theorem C10_long_words_recognized:
  assumes "\<forall>w\<in>set (py_split t). 3 < length w"
  shows "LowRecognition \<notin> set (patterns_found (detect_nonsense t))
         \<and> (\<not> (t = [] \<or> length (py_strip t) < 5)
              \<longrightarrow> recognition_ratio (py_split (py_lower t)) = 1)"
proof (cases "t = [] \<or> length (py_strip t) < 5")
  case True
  then show ?thesis by (simp add: detect_nonsense_def)
next
  case False
  have one: "recognition_ratio (py_split (py_lower t)) = 1"
    using assms False by (rule recognition_reached)
  have "LowRecognition \<notin> set (patterns_found (detect_nonsense t))"
    using False by (auto simp: detect_nonsense_def Let_def one)
  with one show ?thesis by simp
qed

theorem C10_long_words_recognized_witness:
  "list_all (\<lambda>w. 3 < length w)
     (py_split ''zxcv bnmq wert yuio pqrs tuvw xyza bcde fghi jklm nopq'')
   \<and> LowRecognition \<notin> set (patterns_found
         (detect_nonsense ''zxcv bnmq wert yuio pqrs tuvw xyza bcde fghi jklm nopq''))
   \<and> recognition_ratio
         (py_split (py_lower ''zxcv bnmq wert yuio pqrs tuvw xyza bcde fghi jklm nopq'')) = 1"
proof -
  have h: "\<forall>w\<in>set (py_split ''zxcv bnmq wert yuio pqrs tuvw xyza bcde fghi jklm nopq''). 3 < length w"
    by code_simp
  have g: "\<not> (''zxcv bnmq wert yuio pqrs tuvw xyza bcde fghi jklm nopq'' = []
              \<or> length (py_strip ''zxcv bnmq wert yuio pqrs tuvw xyza bcde fghi jklm nopq'') < 5)"
    by code_simp
  show ?thesis using h g C10_long_words_recognized [OF h] by (simp add: list_all_iff)
qed

subsection \<open>The full mode\<close>

lemma fallback_similarity_range:
  "0 \<le> fallback_similarity a b \<and> fallback_similarity a b \<le> 1"
proof -
  define w1 where "w1 = remdups (py_split (py_lower a))"
  define w2 where "w2 = remdups (py_split (py_lower b))"
  have "length (filter (\<lambda>w. w \<in> set w2) w1) \<le> length w1" by simp
  also have "\<dots> = card (set w1)" by (simp add: w1_def length_remdups_card_conv)
  also have "\<dots> \<le> card (set w1 \<union> set w2)" by (simp add: card_mono)
  also have "\<dots> = length (remdups (w1 @ w2))" by (simp add: length_remdups_card_conv)
  finally have le: "length (filter (\<lambda>w. w \<in> set w2) w1) \<le> length (remdups (w1 @ w2))" .
  show ?thesis
    unfolding fallback_similarity_def Let_def w1_def [symmetric] w2_def [symmetric]
    using le by (simp add: divide_le_eq)
qed

lemma semantic_similarity_range:
  "0 \<le> semantic_similarity env a b \<and> semantic_similarity env a b \<le> 1"
  using fallback_similarity_range [of a b]
  by (simp add: semantic_similarity_def split: option.splits)

lemma py_round_le_one: "x \<le> 1 \<Longrightarrow> py_round x n \<le> 1"
  using py_round_le [of x 1 n] by simp

lemma content_similarity_range:
  "0 \<le> content_semantic_similarity (calculate_enhanced_content_score env t ideal)
   \<and> content_semantic_similarity (calculate_enhanced_content_score env t ideal) \<le> 1"
  using semantic_similarity_range [of env t ideal]
  by (simp add: calculate_enhanced_content_score_def Let_def py_round_nonneg py_round_le_one
           split: prod.splits)

lemma category_scores_fields:
  "content (category_scores env t d ideal audio video) =
     clamp_score (content_final_score (calculate_enhanced_content_score env t ideal))"
  "relevance (category_scores env t d ideal audio video) =
     content_semantic_similarity (calculate_enhanced_content_score env t ideal)"
  "delivery (category_scores env t d ideal audio video) =
     clamp_score (100 - real_of_int (snd (get_wpm_assessment (compute_wpm t d)))
                  - min MAX_FILLER_PENALTY
                      (real (fst (count_fillers t)) * FILLER_PENALTY_PER_WORD))"
  "communication (category_scores env t d ideal audio video) =
     clamp_score (comm_final_score (calculate_enhanced_communication_score env t))"
  "structure_score (category_scores env t d ideal audio video) =
     clamp_score (structure_final_score (calculate_structure_score t))"
  "filler_count (category_scores env t d ideal audio video) = fst (count_fillers t)"
  "wpm (category_scores env t d ideal audio video) = compute_wpm t d"
  "final (category_scores env t d ideal audio video) = 0"
  by (simp_all add: category_scores_def Let_def initial_result_def)

lemma category_scores_voice:
  "\<exists>x. voice (category_scores env t d ideal audio video) = clamp_score x
       \<or> voice (category_scores env t d ideal audio video) = 70"
  by (auto simp: category_scores_def Let_def initial_result_def split: option.splits)

lemma category_scores_confidence:
  "\<exists>x. confidence (category_scores env t d ideal audio video) = clamp_score x"
  by (auto simp: category_scores_def Let_def initial_result_def)

lemma seventy_range: "(0::real) \<le> 70 \<and> (70::real) \<le> 100"
  by simp

lemma category_scores_range:
  fixes env t d ideal audio video
  defines "r \<equiv> category_scores env t d ideal audio video"
  shows "0 \<le> content r \<and> content r \<le> 100"
    and "0 \<le> delivery r \<and> delivery r \<le> 100"
    and "0 \<le> communication r \<and> communication r \<le> 100"
    and "0 \<le> voice r \<and> voice r \<le> 100"
    and "0 \<le> confidence r \<and> confidence r \<le> 100"
    and "0 \<le> structure_score r \<and> structure_score r \<le> 100"
    and "0 \<le> relevance r \<and> relevance r \<le> 1"
proof -
  show "0 \<le> content r \<and> content r \<le> 100"
    unfolding r_def category_scores_fields by (rule clamp_score_range)
  show "0 \<le> delivery r \<and> delivery r \<le> 100"
    unfolding r_def category_scores_fields by (rule clamp_score_range)
  show "0 \<le> communication r \<and> communication r \<le> 100"
    unfolding r_def category_scores_fields by (rule clamp_score_range)
  show "0 \<le> voice r \<and> voice r \<le> 100"
    unfolding r_def using category_scores_voice [of env t d ideal audio video]
      clamp_score_range by auto
  show "0 \<le> confidence r \<and> confidence r \<le> 100"
    unfolding r_def using category_scores_confidence [of env t d ideal audio video]
      clamp_score_range by auto
  show "0 \<le> structure_score r \<and> structure_score r \<le> 100"
    unfolding r_def category_scores_fields by (rule clamp_score_range)
  show "0 \<le> relevance r \<and> relevance r \<le> 1"
    unfolding r_def category_scores_fields by (rule content_similarity_range)
qed

lemma score_answer_short:
  "t = [] \<or> length (py_strip t) < 5 \<Longrightarrow> score_answer env t d ideal audio video = initial_result"
  by (simp add: score_answer_def)

lemma score_answer_long:
  fixes env t d ideal audio video
  assumes "\<not> (t = [] \<or> length (py_strip t) < 5)"
  defines "c \<equiv> category_scores env t d ideal audio video"
  defines "r \<equiv> score_answer env t d ideal audio video"
  defines "q \<equiv> apply_quality_gates t c ideal"
  shows "content r = content c" and "delivery r = delivery c"
    and "communication r = communication c" and "voice r = voice c"
    and "confidence r = confidence c" and "structure_score r = structure_score c"
    and "relevance r = relevance c" and "filler_count r = filler_count c"
    and "quality_issues r = Some (issues q)"
    and "quality_penalties r = Some (penalties q)"
    and "final r = clamp_score (case score_cap q of
                                  None \<Rightarrow> raw_final_score c - total_penalty q
                                | Some cap \<Rightarrow> min (raw_final_score c - total_penalty q)
                                               (real_of_int cap))"
    and "raw_final r = Some (clamp_score (raw_final_score c))"
  using assms(1) unfolding c_def q_def r_def
  by (simp_all add: score_answer_def Let_def raw_final_score_def split: option.splits)

text \<open>
  C2. Whatever the transcript, the duration, the audio, the video signals and the
  collaborators, each of the six category scores and the final score of \<^verbatim>\<open>score_answer\<close>
  lies in \<open>[0, 100]\<close> and the relevance lies in \<open>[0, 1]\<close>.
\<close>

theorem C2_scores_in_range:
  fixes env t d ideal audio video
  defines "r \<equiv> score_answer env t d ideal audio video"
  shows "(0 \<le> content r \<and> content r \<le> 100)
       \<and> (0 \<le> delivery r \<and> delivery r \<le> 100)
       \<and> (0 \<le> communication r \<and> communication r \<le> 100)
       \<and> (0 \<le> voice r \<and> voice r \<le> 100)
       \<and> (0 \<le> confidence r \<and> confidence r \<le> 100)
       \<and> (0 \<le> structure_score r \<and> structure_score r \<le> 100)
       \<and> (0 \<le> final r \<and> final r \<le> 100)
       \<and> (0 \<le> relevance r \<and> relevance r \<le> 1)"
proof (cases "t = [] \<or> length (py_strip t) < 5")
  case True
  then have "r = initial_result" unfolding r_def by (rule score_answer_short)
  then show ?thesis by (simp add: initial_result_def)
next
  case False
  note eq = score_answer_long [of t env d ideal audio video, OF False]
  show ?thesis
    unfolding r_def eq
    using category_scores_range [of env t d ideal audio video] clamp_score_range
    by simp
qed

lemma apply_quality_gates_fields:
  "filler_count a = filler_count b \<Longrightarrow> relevance a = relevance b \<Longrightarrow>
   structure_score a = structure_score b \<Longrightarrow>
   apply_quality_gates t a ideal = apply_quality_gates t b ideal"
  by (simp add: apply_quality_gates_def Let_def)

lemma add_penalty_total:
  "total_penalty (add_penalty i k p r) = total_penalty r + p"
  by (simp add: add_penalty_def)

lemma gate_total_mono:
  "total_penalty r \<le> total_penalty (gate_min_word_count n r)"
  "total_penalty r \<le> total_penalty (gate_min_unique_words u r)"
  "total_penalty r \<le> total_penalty (gate_max_filler_ratio f n r)"
  "total_penalty r \<le> total_penalty (gate_min_relevance x ideal r)"
  "total_penalty r \<le> total_penalty (gate_max_repetition ws r)"
  "total_penalty r \<le> total_penalty (gate_nonsense t r)"
  "total_penalty r \<le> total_penalty (gate_coherence t r)"
  "total_penalty r = total_penalty (gate_structure s r)"
  by (simp_all add: gate_min_word_count_def gate_min_unique_words_def
        gate_max_filler_ratio_def gate_min_relevance_def gate_max_repetition_def
        gate_nonsense_def gate_coherence_def gate_structure_def Let_def add_penalty_total
        QG_min_word_count_penalty_def QG_min_unique_words_penalty_def
        QG_max_filler_ratio_penalty_def QG_min_relevance_penalty_def
        QG_max_repetition_penalty_def)

lemma gate_nonsense_short:
  "length (py_strip t) < 5 \<Longrightarrow> total_penalty (gate_nonsense t r) = total_penalty r + 50"
  by (simp add: gate_nonsense_def detect_nonsense_def add_penalty_total)

lemma total_penalty_nonneg_start:
  "0 \<le> total_penalty
          (gate_max_repetition ws
            (gate_min_relevance x ideal
              (gate_max_filler_ratio f n
                (gate_min_unique_words u
                  (gate_min_word_count n
                    \<lparr>issues = [], penalties = [], total_penalty = 0, score_cap = None\<rparr>)))))"
    (is "0 \<le> total_penalty (gate_max_repetition ws (gate_min_relevance x ideal
            (gate_max_filler_ratio f n (gate_min_unique_words u (gate_min_word_count n ?r0)))))")
proof -
  have "0 \<le> total_penalty ?r0" by simp
  also have "\<dots> \<le> total_penalty (gate_min_word_count n ?r0)" by (rule gate_total_mono)
  also have "\<dots> \<le> total_penalty (gate_min_unique_words u (gate_min_word_count n ?r0))"
    by (rule gate_total_mono)
  also have "\<dots> \<le> total_penalty (gate_max_filler_ratio f n
                         (gate_min_unique_words u (gate_min_word_count n ?r0)))"
    by (rule gate_total_mono)
  also have "\<dots> \<le> total_penalty (gate_min_relevance x ideal (gate_max_filler_ratio f n
                         (gate_min_unique_words u (gate_min_word_count n ?r0))))"
    by (rule gate_total_mono)
  also have "\<dots> \<le> total_penalty (gate_max_repetition ws (gate_min_relevance x ideal
                         (gate_max_filler_ratio f n
                           (gate_min_unique_words u (gate_min_word_count n ?r0)))))"
    by (rule gate_total_mono)
  finally show ?thesis .
qed

lemma short_transcript_penalty:
  assumes "t \<noteq> []" and "length (py_strip t) < 5"
  shows "50 \<le> total_penalty (apply_quality_gates t s ideal)"
proof -
  define r5 where "r5 =
    gate_max_repetition (py_split t)
      (gate_min_relevance (relevance s) ideal
        (gate_max_filler_ratio (filler_count s) (length (py_split t))
          (gate_min_unique_words
             (remdups (map py_lower (filter (\<lambda>w. length w > 2) (py_split t))))
            (gate_min_word_count (length (py_split t))
              \<lparr>issues = [], penalties = [], total_penalty = 0, score_cap = None\<rparr>))))"
  have r5: "0 \<le> total_penalty r5" unfolding r5_def by (rule total_penalty_nonneg_start)
  have "apply_quality_gates t s ideal =
          gate_structure (structure_score s) (gate_coherence t (gate_nonsense t r5))"
    using assms(1) by (simp add: apply_quality_gates_def Let_def r5_def)
  moreover have "total_penalty (gate_nonsense t r5) = total_penalty r5 + 50"
    using assms(2) by (rule gate_nonsense_short)
  moreover have "total_penalty (gate_nonsense t r5) \<le> total_penalty (gate_coherence t (gate_nonsense t r5))"
    by (rule gate_total_mono)
  moreover have "total_penalty (gate_coherence t (gate_nonsense t r5)) =
      total_penalty (gate_structure (structure_score s) (gate_coherence t (gate_nonsense t r5)))"
    by (rule gate_total_mono)
  ultimately show ?thesis using r5 by simp
qed

lemma clamp_score_spec_final:
  "clamp_score (case cap of None \<Rightarrow> x - p | Some c \<Rightarrow> min (x - p) (real_of_int c)) =
     py_round (spec_final x p cap) 1"
  by (cases cap) (simp_all add: clamp_score_def spec_final_def MIN_SCORE_def MAX_SCORE_def
        min.commute min.left_commute)

lemma py_round_zero: "py_round 0 n = 0"
  by (simp add: py_round_def round_half_even_def)

lemma raw_final_initial: "raw_final_score initial_result = 21"
  by (simp add: raw_final_score_def initial_result_def SCORE_WEIGHTS_content_def
        SCORE_WEIGHTS_delivery_def SCORE_WEIGHTS_communication_def SCORE_WEIGHTS_voice_def
        SCORE_WEIGHTS_confidence_def SCORE_WEIGHTS_structure_def)

lemma score_answer_final:
  fixes env t d ideal audio video
  defines "r \<equiv> score_answer env t d ideal audio video"
  defines "q \<equiv> apply_quality_gates t r ideal"
  shows "final r = py_round (spec_final (raw_final_score r) (total_penalty q) (score_cap q)) 1"
proof (cases "t = [] \<or> length (py_strip t) < 5")
  case True
  then have r: "r = initial_result" unfolding r_def by (rule score_answer_short)
  have "spec_final (raw_final_score r) (total_penalty q) (score_cap q) = 0"
  proof (cases "t = []")
    case True
    then show ?thesis
      unfolding q_def r by (simp add: apply_quality_gates_def spec_final_def raw_final_initial)
  next
    case False
    with True have "length (py_strip t) < 5" by simp
    with False have "50 \<le> total_penalty q" unfolding q_def by (rule short_transcript_penalty)
    then show ?thesis
      unfolding r by (simp add: spec_final_def raw_final_initial min_def max_def)
  qed
  then show ?thesis by (simp add: r initial_result_def py_round_zero)
next
  case False
  note eq = score_answer_long [of t env d ideal audio video, OF False]
  define c where "c = category_scores env t d ideal audio video"
  have q: "q = apply_quality_gates t c ideal"
    unfolding q_def r_def c_def by (rule apply_quality_gates_fields) (simp_all add: eq)
  have raw: "raw_final_score r = raw_final_score c"
    unfolding r_def c_def by (simp add: raw_final_score_def eq)
  show ?thesis
    unfolding raw q unfolding r_def c_def eq(11) by (rule clamp_score_spec_final)
qed

text \<open>
  C3 (as stated, refuted). For the empty transcript the voice and the confidence score
  are the neutral default 70, not 0.
\<close>

theorem C3_empty_transcript_counterexample:
  "voice (score_answer no_collaborators [] 30 ''Describe a project you led.'' None None) = 70
   \<and> confidence (score_answer no_collaborators [] 30 ''Describe a project you led.'' None None) = 70"
  by (simp add: score_answer_def initial_result_def)

text \<open>
  C3 (amended). For the empty transcript and for every transcript with fewer than five
  characters after stripping, full-mode scoring returns the initial result: the final
  score and the content, delivery, communication and structure scores are 0, and the
  voice and confidence scores are the neutral default 70.
\<close>

theorem C3_short_transcript:
  fixes env t d ideal audio video
  assumes "t = [] \<or> length (py_strip t) < 5"
  defines "r \<equiv> score_answer env t d ideal audio video"
  shows "final r = 0 \<and> content r = 0 \<and> delivery r = 0 \<and> communication r = 0
         \<and> structure_score r = 0 \<and> voice r = 70 \<and> confidence r = 70"
proof -
  have "r = initial_result" unfolding r_def using assms(1) by (rule score_answer_short)
  then show ?thesis by (simp add: initial_result_def)
qed

theorem C3_short_transcript_witness:
  "final (score_answer no_collaborators '' ok '' 3 ''Describe a project you led.'' None None) = 0
   \<and> structure_score
        (score_answer no_collaborators '' ok '' 3 ''Describe a project you led.'' None None) = 0
   \<and> voice (score_answer no_collaborators '' ok '' 3 ''Describe a project you led.'' None None) = 70
   \<and> final (score_answer no_collaborators [] 3 ''Describe a project you led.'' None None) = 0"
proof -
  have h: "'' ok '' = [] \<or> length (py_strip '' ok '') < 5" by code_simp
  have e: "([] :: string) = [] \<or> length (py_strip []) < 5" by simp
  show ?thesis
    using C3_short_transcript [of "'' ok ''" no_collaborators 3 "''Describe a project you led.''" None None, OF h]
      C3_short_transcript [of "[]" no_collaborators 3 "''Describe a project you led.''" None None, OF e]
    by simp
qed

text \<open>
  C1 (amended). For every evaluation in the full mode the final score is the value
  \<open>clamp(min(rawFinal - qualityPenaltyTotal, scoreCap ?? 100), 0, 100)\<close> rounded to one
  decimal: it is a multiple of 0.1 and differs from that value by at most 0.05 (which of
  the two neighbours is returned when the value lies exactly half way between them is
  left open). Here \<open>rawFinal\<close> is the weighted sum of the six returned category scores and
  the penalty total and the cap are what the quality gates give for the transcript, the
  scores and the ideal answer; and when the transcript passes the guard for a short
  input, the issues and penalties of the result are those of the same gate outputs.
\<close>

theorem C1_final_score:
  fixes env t d ideal audio video
  defines "r \<equiv> score_answer env t d ideal audio video"
  defines "q \<equiv> apply_quality_gates t r ideal"
  shows "(\<exists>k :: int. final r = of_int k / 10)
         \<and> \<bar>final r - spec_final (raw_final_score r) (total_penalty q) (score_cap q)\<bar> \<le> 0.05
         \<and> (\<not> (t = [] \<or> length (py_strip t) < 5) \<longrightarrow>
              quality_issues r = Some (issues q) \<and> quality_penalties r = Some (penalties q))"
proof -
  have f: "final r = py_round (spec_final (raw_final_score r) (total_penalty q) (score_cap q)) 1"
    unfolding r_def q_def by (rule score_answer_final)
  have "\<exists>k :: int. final r = of_int k / 10"
    unfolding f
    using py_round_multiple [of "spec_final (raw_final_score r) (total_penalty q) (score_cap q)" 1]
    by simp
  moreover have "\<bar>final r - spec_final (raw_final_score r) (total_penalty q) (score_cap q)\<bar> \<le> 0.05"
    unfolding f
    using py_round_error [of "spec_final (raw_final_score r) (total_penalty q) (score_cap q)" 1]
    by simp
  moreover have "quality_issues r = Some (issues q) \<and> quality_penalties r = Some (penalties q)"
    if long: "\<not> (t = [] \<or> length (py_strip t) < 5)"
  proof -
    note eq = score_answer_long [of t env d ideal audio video, OF long]
    have "q = apply_quality_gates t (category_scores env t d ideal audio video) ideal"
      unfolding q_def r_def by (rule apply_quality_gates_fields) (simp_all add: eq)
    then show ?thesis unfolding r_def by (simp add: eq)
  qed
  ultimately show ?thesis by blast
qed

theorem C1_final_score_witness:
  "\<not> (''We shipped it'' = [] \<or> length (py_strip ''We shipped it'') < 5)
   \<and> (\<exists>k :: int.
         final (score_answer no_collaborators ''We shipped it'' 2 ''We shipped it'' None None) =
           of_int k / 10)
   \<and> \<bar>final (score_answer no_collaborators ''We shipped it'' 2 ''We shipped it'' None None)
       - spec_final
           (raw_final_score
              (score_answer no_collaborators ''We shipped it'' 2 ''We shipped it'' None None))
           (total_penalty (apply_quality_gates ''We shipped it''
              (score_answer no_collaborators ''We shipped it'' 2 ''We shipped it'' None None)
              ''We shipped it''))
           (score_cap (apply_quality_gates ''We shipped it''
              (score_answer no_collaborators ''We shipped it'' 2 ''We shipped it'' None None)
              ''We shipped it''))\<bar> \<le> 0.05
   \<and> quality_penalties
         (score_answer no_collaborators ''We shipped it'' 2 ''We shipped it'' None None) =
       Some (penalties (apply_quality_gates ''We shipped it''
            (score_answer no_collaborators ''We shipped it'' 2 ''We shipped it'' None None)
            ''We shipped it''))"
proof -
  have h: "\<not> (''We shipped it'' = [] \<or> length (py_strip ''We shipped it'') < 5)"
    by code_simp
  show ?thesis
    using h C1_final_score [of no_collaborators "''We shipped it''" 2 "''We shipped it''" None None]
    by blast
qed

subsection \<open>Quality gates, grammar and the keyword-only mode\<close>

lemmas gate_defs = gate_min_word_count_def gate_min_unique_words_def
  gate_max_filler_ratio_def gate_min_relevance_def gate_max_repetition_def
  gate_nonsense_def gate_coherence_def gate_structure_def add_penalty_def

lemmas cap_consts = SCORE_CAPS_very_short_def SCORE_CAPS_short_def SCORE_CAPS_no_structure_def
  SCORE_CAPS_off_topic_def SCORE_CAPS_nonsense_def QG_min_word_count_threshold_def
  QG_min_relevance_threshold_def

lemma gate_keeps_cap:
  "score_cap (gate_min_unique_words u r) = score_cap r"
  "score_cap (gate_max_filler_ratio f n r) = score_cap r"
  "score_cap (gate_max_repetition ws r) = score_cap r"
  "score_cap (gate_coherence t r) = score_cap r"
  by (simp_all add: gate_defs Let_def)

lemma gate_min_word_count_cap:
  "n < 10 \<Longrightarrow> score_cap (gate_min_word_count n r) = Some 40"
  by (simp add: gate_defs Let_def cap_consts)

lemma gate_min_relevance_cap:
  "score_cap r = Some 40 \<Longrightarrow>
   score_cap (gate_min_relevance x ideal r) = Some (if x < 0.25 \<and> ideal \<noteq> [] then 35 else 40)"
  by (simp add: gate_defs Let_def cap_consts)

lemma gate_nonsense_cap:
  "score_cap (gate_nonsense t r) = (if is_nonsense (detect_nonsense t) then Some 15 else score_cap r)"
  by (simp add: gate_defs Let_def cap_consts)

lemma gate_structure_cap:
  "score_cap r = Some c \<Longrightarrow> c \<le> 55 \<Longrightarrow> score_cap (gate_structure s r) = Some c"
  by (simp add: gate_defs cap_consts)

lemma score_cap_short_transcript:
  assumes "t \<noteq> []" and "length (py_split t) < 10"
  shows "score_cap (apply_quality_gates t s ideal) =
           Some (if is_nonsense (detect_nonsense t) then 15
                 else if relevance s < 0.25 \<and> ideal \<noteq> [] then 35
                 else 40)"
proof -
  define r0 :: quality_result
    where "r0 = \<lparr>issues = [], penalties = [], total_penalty = 0, score_cap = None\<rparr>"
  define r1 where "r1 = gate_min_word_count (length (py_split t)) r0"
  define r2 where "r2 = gate_min_unique_words
     (remdups (map py_lower (filter (\<lambda>w. length w > 2) (py_split t)))) r1"
  define r3 where "r3 = gate_max_filler_ratio (filler_count s) (length (py_split t)) r2"
  define r4 where "r4 = gate_min_relevance (relevance s) ideal r3"
  define r5 where "r5 = gate_max_repetition (py_split t) r4"
  define r6 where "r6 = gate_nonsense t r5"
  define r7 where "r7 = gate_coherence t r6"
  define c :: int where "c = (if is_nonsense (detect_nonsense t) then 15
                 else if relevance s < 0.25 \<and> ideal \<noteq> [] then 35 else 40)"
  have eq: "apply_quality_gates t s ideal = gate_structure (structure_score s) r7"
    using assms(1)
    by (simp add: apply_quality_gates_def Let_def r0_def r1_def r2_def r3_def r4_def r5_def
          r6_def r7_def)
  have "score_cap r1 = Some 40" unfolding r1_def using assms(2) by (rule gate_min_word_count_cap)
  then have "score_cap r3 = Some 40" by (simp add: r3_def r2_def gate_keeps_cap)
  then have "score_cap r4 = Some (if relevance s < 0.25 \<and> ideal \<noteq> [] then 35 else 40)"
    unfolding r4_def by (rule gate_min_relevance_cap)
  then have "score_cap r5 = Some (if relevance s < 0.25 \<and> ideal \<noteq> [] then 35 else 40)"
    by (simp add: r5_def gate_keeps_cap)
  then have "score_cap r6 = Some c" by (simp add: r6_def gate_nonsense_cap c_def)
  then have "score_cap r7 = Some c" by (simp add: r7_def gate_keeps_cap)
  moreover have "c \<le> 55" by (simp add: c_def)
  ultimately have "score_cap (gate_structure (structure_score s) r7) = Some c"
    by (rule gate_structure_cap)
  then show ?thesis by (simp add: eq c_def)
qed

lemma heuristic_grammar_check_le: "heuristic_grammar_check t \<le> 9"
proof -
  have "heuristic_grammar_check t \<le> length grammar_patterns"
    unfolding heuristic_grammar_check_def Let_def by (rule length_filter_le)
  then show ?thesis by (simp add: grammar_patterns_def)
qed

lemma grammar_score_fallback:
  assumes "language_tool env = None"
  shows "73 \<le> grammar_score (estimate_grammar_errors env t)"
proof -
  have "estimate_grammar_errors env t \<le> 9"
    using heuristic_grammar_check_le [of t] assms by (simp add: estimate_grammar_errors_def)
  then have "real (estimate_grammar_errors env t) \<le> 9" by simp
  then show ?thesis by (simp add: grammar_score_def GRAMMAR_PENALTY_PER_ERROR_def)
qed

lemma content_keywords_no_ideal: "keyword_score (analyze_content_keywords t []) = 0"
  by (simp add: analyze_content_keywords_def)

lemma content_score_no_ideal:
  "content_final_score (calculate_enhanced_content_score env t []) = 0"
  by (simp add: calculate_enhanced_content_score_def Let_def content_keywords_no_ideal
        semantic_similarity_def py_round_zero split: prod.splits)

lemma clamp_score_zero: "clamp_score 0 = 0"
  by (simp add: clamp_score_def MIN_SCORE_def MAX_SCORE_def py_round_zero)

lemma full_mode_no_ideal: "content (score_answer env t d [] audio video) = 0"
proof (cases "t = [] \<or> length (py_strip t) < 5")
  case True
  then show ?thesis by (simp add: score_answer_short initial_result_def)
next
  case False
  note eq = score_answer_long [of t env d "[]" audio video, OF False]
  show ?thesis
    by (simp add: eq category_scores_fields content_score_no_ideal clamp_score_zero)
qed

lemma py_round_50: "py_round 50 1 = 50"
  using py_round_of_int [of 50 1] by simp

lemma score_answer_by_keywords_long:
  fixes env t kws d ideal
  assumes g: "\<not> (t = [] \<or> length (py_strip t) < 5)"
  defines "r \<equiv> score_answer_by_keywords env t kws d ideal"
  shows "content r = content (keyword_content env t kws ideal)"
    and "relevance r = relevance (keyword_content env t kws ideal)"
    and "delivery r = py_round (max 0 (min 100
            (100 - real_of_int (snd (get_wpm_assessment (compute_wpm t d)))
             - min 20 (real (fst (count_fillers t)) * 3)))) 1"
    and "communication r = py_round (max 0 (min 100
            (comm_final_score (calculate_enhanced_communication_score env t)))) 1"
    and "final r = py_round (max 0 (min 100 (keyword_final_score r))) 1"
  unfolding r_def score_answer_by_keywords_def if_not_P [OF g] Let_def
  by (simp_all add: keyword_final_score_def)

lemma keyword_content_neutral:
  "ideal = None \<or> ideal = Some [] \<Longrightarrow> content (keyword_content env t [] ideal) = 50"
  by (auto simp: keyword_content_def initial_keyword_result_def)

text \<open>
  C6 (amended). In the keyword-only mode, for every transcript with at least five
  characters after stripping, the content score is 50 when the keyword list is empty and
  the ideal answer is absent or empty.
\<close>

theorem C6_keyword_mode_neutral_content:
  assumes "\<not> (t = [] \<or> length (py_strip t) < 5)"
    and "ideal = None \<or> ideal = Some []"
  shows "content (score_answer_by_keywords env t [] d ideal) = 50"
  using score_answer_by_keywords_long(1) [OF assms(1)] keyword_content_neutral [OF assms(2)]
  by simp

lemma keyword_final_all_100:
  "content r = 100 \<Longrightarrow> delivery r = 100 \<Longrightarrow> communication r = 100 \<Longrightarrow>
   py_round (max 0 (min 100 (keyword_final_score r))) 1 = 60"
  using py_round_of_int [of 60 1]
  by (simp add: keyword_final_score_def SCORE_WEIGHTS_content_def SCORE_WEIGHTS_delivery_def
        SCORE_WEIGHTS_communication_def)

subsection \<open>An example evaluation\<close>

lemma semantic_similarity_no_encoder:
  "encoder env = None \<Longrightarrow> a \<noteq> [] \<Longrightarrow> b \<noteq> [] \<Longrightarrow>
   semantic_similarity env a b = fallback_similarity a b"
  by (simp add: semantic_similarity_def)

lemma sentence_complexity_single:
  "t \<noteq> [] \<Longrightarrow> length (sentences_of t) < 2 \<Longrightarrow> analyze_sentence_complexity t = 50"
  by (simp add: analyze_sentence_complexity_def)

lemma py_round_tenths: "py_round (of_int k / 10) 1 = of_int k / 10"
  by (simp add: py_round_def round_half_even_def Let_def)

lemma communication_score_value:
  assumes g: "\<not> (t = [] \<or> length (py_strip t) < 10)"
  shows "comm_final_score (calculate_enhanced_communication_score env t) =
           py_round (py_round (grammar_score (estimate_grammar_errors env t)) 1 * 0.30
                     + calculate_vocabulary_diversity t * 0.25
                     + analyze_sentence_complexity t * 0.15
                     + analyze_coherence t * 0.15
                     + detect_professional_vocabulary t * 0.15) 1"
  unfolding calculate_enhanced_communication_score_def if_not_P [OF g] Let_def
  by (simp add: COMMUNICATION_WEIGHTS_grammar_def COMMUNICATION_WEIGHTS_vocabulary_diversity_def
        COMMUNICATION_WEIGHTS_sentence_complexity_def COMMUNICATION_WEIGHTS_coherence_def
        COMMUNICATION_WEIGHTS_professional_vocab_def add.assoc)

lemma example_guard: "\<not> (example_answer = [] \<or> length (py_strip example_answer) < 10)"
  by code_simp

lemma example_comm_parts:
  "estimate_grammar_errors no_collaborators example_answer = 0"
  "calculate_vocabulary_diversity example_answer = 0"
  "analyze_coherence example_answer = 0"
  "detect_professional_vocabulary example_answer = 0"
  "length (sentences_of example_answer) = 1"
  by code_simp+

lemma example_communication:
  "comm_final_score (calculate_enhanced_communication_score no_collaborators example_answer) = 75 / 2"
proof -
  have ne: "example_answer \<noteq> []" using example_guard by simp
  have s: "analyze_sentence_complexity example_answer = 50"
    using ne by (rule sentence_complexity_single) (simp add: example_comm_parts)
  have "py_round (grammar_score 0) 1 = 100"
    using py_round_of_int [of 100 1] by (simp add: grammar_score_def)
  then show ?thesis
    unfolding communication_score_value [OF example_guard] example_comm_parts s
    using py_round_tenths [of 375] by simp
qed

lemma content_score_value:
  assumes g: "\<not> (t = [] \<or> length (py_strip t) < 10)" and short: "length (py_split t) < 30"
  shows "content_final_score (calculate_enhanced_content_score env t ideal) =
           py_round (min 100 (max 0
             (keyword_score (analyze_content_keywords t ideal) * 0.6
              + min 100 (semantic_similarity env t ideal * 110) * 0.4))) 1"
    and "content_semantic_similarity (calculate_enhanced_content_score env t ideal) =
           py_round (semantic_similarity env t ideal) 3"
  unfolding calculate_enhanced_content_score_def if_not_P [OF g] Let_def
  using short by simp_all

lemma clamp_score_tenths:
  "0 \<le> k \<Longrightarrow> k \<le> 1000 \<Longrightarrow> clamp_score (of_int k / 10) = of_int k / 10"
proof -
  assume "0 \<le> k" and "k \<le> 1000"
  then have "max MIN_SCORE (min MAX_SCORE (real_of_int k / 10)) = real_of_int k / 10"
    by (simp add: MIN_SCORE_def MAX_SCORE_def)
  then show ?thesis unfolding clamp_score_def by (simp only: py_round_tenths)
qed

lemma clamp_score_70: "clamp_score 70 = 70"
  using clamp_score_tenths [of 700] by simp

lemma clamp_score_100: "clamp_score 100 = 100"
  using clamp_score_tenths [of 1000] by simp

lemma category_scores_no_media:
  "voice (category_scores env t d ideal None None) = 70"
  "confidence (category_scores env t d ideal None None) = 70"
proof -
  show "voice (category_scores env t d ideal None None) = 70"
    by (simp add: category_scores_def Let_def initial_result_def)
  have "calculate_confidence_score 70 70 70 70 = 70"
    using py_round_of_int [of 70 1]
    by (simp add: calculate_confidence_score_def CONFIDENCE_WEIGHTS_voice_confidence_def
          CONFIDENCE_WEIGHTS_eye_contact_def CONFIDENCE_WEIGHTS_body_stability_def
          CONFIDENCE_WEIGHTS_emotion_positivity_def)
  then show "confidence (category_scores env t d ideal None None) = 70"
    by (simp add: category_scores_def Let_def initial_result_def clamp_score_70)
qed

lemma example_content_parts:
  "keyword_score (analyze_content_keywords example_answer example_answer) = 100"
  "fallback_similarity example_answer example_answer = 1"
  "length (py_split example_answer) = 12"
  by code_simp+

lemma example_content:
  "content_final_score
     (calculate_enhanced_content_score no_collaborators example_answer example_answer) = 100"
  "content_semantic_similarity
     (calculate_enhanced_content_score no_collaborators example_answer example_answer) = 1"
proof -
  have ne: "example_answer \<noteq> []" using example_guard by simp
  have sim: "semantic_similarity no_collaborators example_answer example_answer = 1"
    using semantic_similarity_no_encoder [OF _ ne ne, of no_collaborators]
    by (simp add: no_collaborators_def example_content_parts)
  have short: "length (py_split example_answer) < 30" by (simp add: example_content_parts)
  show "content_final_score
     (calculate_enhanced_content_score no_collaborators example_answer example_answer) = 100"
    unfolding content_score_value [OF example_guard short] sim example_content_parts
    using py_round_of_int [of 100 1] by simp
  show "content_semantic_similarity
     (calculate_enhanced_content_score no_collaborators example_answer example_answer) = 1"
    unfolding content_score_value [OF example_guard short] sim
    using py_round_of_int [of 1 3] by simp
qed

lemma example_delivery_parts:
  "compute_wpm example_answer 4.8 = 150"
  "fst (count_fillers example_answer) = 0"
  "structure_final_score (calculate_structure_score example_answer) = 67 / 2"
  by code_simp+

lemma example_categories:
  fixes c defines "c \<equiv> category_scores no_collaborators example_answer 4.8 example_answer None None"
  shows "content c = 100" and "delivery c = 100" and "communication c = 75 / 2"
    and "voice c = 70" and "confidence c = 70" and "structure_score c = 67 / 2"
    and "relevance c = 1" and "filler_count c = 0"
proof -
  show "content c = 100"
    unfolding c_def category_scores_fields example_content by (rule clamp_score_100)
  have "snd (get_wpm_assessment 150) = 0" by (simp add: get_wpm_assessment_def wpm_consts)
  then show "delivery c = 100"
    unfolding c_def category_scores_fields example_delivery_parts
    by (simp add: MAX_FILLER_PENALTY_def clamp_score_100)
  show "communication c = 75 / 2"
    unfolding c_def category_scores_fields example_communication
    using clamp_score_tenths [of 375] by simp
  show "voice c = 70" unfolding c_def by (rule category_scores_no_media)
  show "confidence c = 70" unfolding c_def by (rule category_scores_no_media)
  show "structure_score c = 67 / 2"
    unfolding c_def category_scores_fields example_delivery_parts
    using clamp_score_tenths [of 335] by simp
  show "relevance c = 1" unfolding c_def category_scores_fields by (rule example_content)
  show "filler_count c = 0" unfolding c_def category_scores_fields by (rule example_delivery_parts)
qed

lemma example_gate_run:
  "total_penalty (apply_quality_gates example_answer
      (initial_result\<lparr>filler_count := 0, relevance := 1, structure_score := 67 / 2\<rparr>)
      example_answer) = 50"
  "score_cap (apply_quality_gates example_answer
      (initial_result\<lparr>filler_count := 0, relevance := 1, structure_score := 67 / 2\<rparr>)
      example_answer) = Some 60"
  by code_simp+

lemma example_long: "\<not> (example_answer = [] \<or> length (py_strip example_answer) < 5)"
  using example_guard by auto

lemma example_result_fields:
  "content example_result = 100" "delivery example_result = 100"
  "communication example_result = 75 / 2" "voice example_result = 70"
  "confidence example_result = 70" "structure_score example_result = 67 / 2"
  "relevance example_result = 1" "filler_count example_result = 0"
  unfolding example_result_def
    score_answer_long [of example_answer no_collaborators "4.8" example_answer None None,
      OF example_long]
    example_categories
  by simp_all

lemma example_gates_value:
  "total_penalty example_gates = 50" "score_cap example_gates = Some 60"
proof -
  have eq: "example_gates = apply_quality_gates example_answer
      (initial_result\<lparr>filler_count := 0, relevance := 1, structure_score := 67 / 2\<rparr>)
      example_answer"
    unfolding example_gates_def
    by (rule apply_quality_gates_fields) (simp_all add: example_result_fields)
  show "total_penalty example_gates = 50" unfolding eq by (rule example_gate_run)
  show "score_cap example_gates = Some 60" unfolding eq by (rule example_gate_run)
qed

lemma example_spec_final:
  "spec_final (raw_final_score example_result) (total_penalty example_gates)
     (score_cap example_gates) = 999 / 40"
  by (simp add: spec_final_def raw_final_score_def example_result_fields example_gates_value
        SCORE_WEIGHTS_content_def SCORE_WEIGHTS_delivery_def SCORE_WEIGHTS_communication_def
        SCORE_WEIGHTS_voice_def SCORE_WEIGHTS_confidence_def SCORE_WEIGHTS_structure_def)

text \<open>
  C1 (as stated, refuted). For the example answer the weighted sum is 74.975, the gates
  take 50 and cap at 60, so the value of the claim's formula is 24.975; the returned
  final score is 25.0, because \<^verbatim>\<open>_clamp_score\<close> rounds to one decimal. The value is
  not half way between two multiples of 0.1, so the rounding does not depend on how a
  tie is taken.
\<close>

theorem C1_final_score_counterexample:
  "final example_result = 25
   \<and> spec_final (raw_final_score example_result) (total_penalty example_gates)
        (score_cap example_gates) = 999 / 40"
proof -
  have "final example_result =
          py_round (spec_final (raw_final_score example_result) (total_penalty example_gates)
                      (score_cap example_gates)) 1"
    unfolding example_gates_def example_result_def by (rule score_answer_final)
  also have "\<dots> = py_round (999 / 40) 1" by (simp only: example_spec_final)
  also have "\<dots> = 25" by (simp add: py_round_def round_half_even_def Let_def)
  finally show ?thesis by (simp add: example_spec_final)
qed

subsection \<open>Closing the claims on the gates, the grammar factor and the keyword-only mode\<close>

lemma off_topic_cap_example:
  "score_cap (apply_quality_gates ''I like cats''
         (category_scores no_collaborators ''I like cats'' 2 ''Dogs are great'' None None)
         ''Dogs are great'') = Some 35"
proof -
  define t where "t = ''I like cats''"
  define i where "i = ''Dogs are great''"
  have g: "\<not> (t = [] \<or> length (py_strip t) < 10)" unfolding t_def by code_simp
  have ne: "t \<noteq> []" using g by simp
  have ni: "i \<noteq> []" unfolding i_def by simp
  have w: "length (py_split t) < 10" unfolding t_def by code_simp
  have short: "length (py_split t) < 30" using w by simp
  have n: "\<not> is_nonsense (detect_nonsense t)" unfolding t_def by code_simp
  have fb: "fallback_similarity t i = 0" unfolding t_def i_def by code_simp
  have sim: "semantic_similarity no_collaborators t i = 0"
    using semantic_similarity_no_encoder [OF _ ne ni, of no_collaborators]
    by (simp add: no_collaborators_def fb)
  have rel: "relevance (category_scores no_collaborators t 2 i None None) = 0"
    unfolding category_scores_fields content_score_value [OF g short] sim
    by (rule py_round_zero)
  have "score_cap (apply_quality_gates t (category_scores no_collaborators t 2 i None None) i)
        = Some 35"
    using score_cap_short_transcript [OF ne w,
        of "category_scores no_collaborators t 2 i None None" i] n ni
    by (simp add: rel)
  then show ?thesis unfolding t_def i_def .
qed

text \<open>
  C5 (as stated, refuted). The transcript "asdf asdf asdf asdf asdf" has five words, and
  the cap the quality gates give for it in \<^verbatim>\<open>score_answer\<close> is 15, not 40: the
  nonsense gate runs after the word-count gate and overwrites the cap. For the three
  words "I like cats" against the ideal answer "Dogs are great" the off-topic gate
  lowers the cap to 35, and for the empty transcript the gates return the cap 0.
\<close>

theorem C5_score_cap_counterexample:
  "length (py_split ''asdf asdf asdf asdf asdf'') < 10
   \<and> score_cap (apply_quality_gates ''asdf asdf asdf asdf asdf''
         (category_scores no_collaborators ''asdf asdf asdf asdf asdf'' 2 [] None None) [])
       = Some 15
   \<and> length (py_split ''I like cats'') < 10
   \<and> score_cap (apply_quality_gates ''I like cats''
         (category_scores no_collaborators ''I like cats'' 2 ''Dogs are great'' None None)
         ''Dogs are great'') = Some 35
   \<and> length (py_split []) < 10
   \<and> score_cap (apply_quality_gates [] initial_result ''Dogs are great'') = Some 0"
proof -
  have w: "length (py_split ''asdf asdf asdf asdf asdf'') < 10" by code_simp
  have n: "is_nonsense (detect_nonsense ''asdf asdf asdf asdf asdf'')" by code_simp
  have ne: "''asdf asdf asdf asdf asdf'' \<noteq> []" by simp
  have a: "score_cap (apply_quality_gates ''asdf asdf asdf asdf asdf''
         (category_scores no_collaborators ''asdf asdf asdf asdf asdf'' 2 [] None None) [])
       = Some 15"
    using score_cap_short_transcript [OF ne w] n by simp
  have w2: "length (py_split ''I like cats'') < 10" by code_simp
  have e: "score_cap (apply_quality_gates [] initial_result ''Dogs are great'') = Some 0"
    by (simp add: apply_quality_gates_def)
  have w3: "length (py_split []) < 10" by (simp add: py_split_def)
  show ?thesis using w a w2 off_topic_cap_example e w3 by simp
qed

text \<open>
  C5 (amended). For every non-empty transcript with fewer than 10 words the quality gates
  give a cap of at most 40: it is 15 when the nonsense detection flags the transcript,
  otherwise 35 when an ideal answer exists and the relevance is below 0.25, and 40
  otherwise.
\<close>

theorem C5_score_cap_short:
  assumes "t \<noteq> []" and "length (py_split t) < 10"
  shows "score_cap (apply_quality_gates t s ideal) =
           Some (if is_nonsense (detect_nonsense t) then 15
                 else if relevance s < 0.25 \<and> ideal \<noteq> [] then 35
                 else 40)"
  using assms by (rule score_cap_short_transcript)

theorem C5_score_cap_short_witness:
  "''I like cats'' \<noteq> [] \<and> length (py_split ''I like cats'') < 10
   \<and> score_cap (apply_quality_gates ''I like cats''
         (category_scores no_collaborators ''I like cats'' 2 [] None None) [])
       = Some 40"
proof -
  have w: "length (py_split ''I like cats'') < 10" by code_simp
  have n: "\<not> is_nonsense (detect_nonsense ''I like cats'')" by code_simp
  have ne: "''I like cats'' \<noteq> []" by simp
  show ?thesis
    using w ne n
      C5_score_cap_short [OF ne w,
        of "category_scores no_collaborators ''I like cats'' 2 [] None None" "[]"]
    by simp
qed

text \<open>
  C6 (as stated, refuted). In the full mode there is no keyword list, and with an empty
  ideal answer the content score is 0, not 50; in the keyword-only mode the empty
  transcript returns before the content step, with content 0.
\<close>

theorem C6_neutral_content_counterexample:
  "content (score_answer no_collaborators ''I managed the budget'' 8 [] None None) = 0
   \<and> content (score_answer_by_keywords no_collaborators [] [] 8 None) = 0"
  by (simp add: full_mode_no_ideal score_answer_by_keywords_def initial_keyword_result_def)

theorem C6_keyword_mode_neutral_content_witness:
  "\<not> (''I managed the budget'' = [] \<or> length (py_strip ''I managed the budget'') < 5)
   \<and> content (score_answer_by_keywords no_collaborators ''I managed the budget'' [] 8 None) = 50
   \<and> content (score_answer_by_keywords no_collaborators ''I managed the budget'' [] 8 (Some []))
       = 50"
proof -
  have h: "\<not> (''I managed the budget'' = [] \<or> length (py_strip ''I managed the budget'') < 5)"
    by code_simp
  show ?thesis
    using h C6_keyword_mode_neutral_content [OF h, of None no_collaborators 8]
      C6_keyword_mode_neutral_content [OF h, of "Some []" no_collaborators 8]
    by simp
qed

text \<open>
  C7 (the code against the claim). The grammar factor is
  \<open>min(100, max(0, 100 - 3 * errors))\<close>; the constant \<^verbatim>\<open>MAX_GRAMMAR_PENALTY = 40\<close> is
  imported and never applied. When the grammar checker reports 14 errors the factor is
  58, below the floor \<open>100 - MAX_GRAMMAR_PENALTY = 60\<close> that the claim states.
\<close>

theorem C7_grammar_factor_below_floor:
  "estimate_grammar_errors
     (no_collaborators\<lparr>language_tool := Some (\<lambda>text. Some 14)\<rparr>)
     ''I has went to store yesterday and buyed many thing for they.'' = 14
   \<and> grammar_score 14 = 58
   \<and> grammar_score 14 < 100 - MAX_GRAMMAR_PENALTY"
  by (simp add: estimate_grammar_errors_def grammar_score_def GRAMMAR_PENALTY_PER_ERROR_def
        MAX_GRAMMAR_PENALTY_def)

text \<open>
  C4 (the code against the claim). The keyword-only mode adds the three scores with the
  weights 0.30, 0.15 and 0.15 of \<^verbatim>\<open>SCORE_WEIGHTS\<close> as they are, without renormalizing:
  for the answer "I implemented caching" with the keyword "caching", spoken in 1.2
  seconds, content and delivery are 100 and communication is 37.5, and the final score is
  50.6, where weights renormalized to 0.5, 0.25 and 0.25 would give 84.4.
\<close>

theorem C4_keyword_final_not_renormalized:
  "content (score_answer_by_keywords no_collaborators ''I implemented caching''
              [''caching''] 1.2 None) = 100
   \<and> delivery (score_answer_by_keywords no_collaborators ''I implemented caching''
              [''caching''] 1.2 None) = 100
   \<and> communication (score_answer_by_keywords no_collaborators ''I implemented caching''
              [''caching''] 1.2 None) = 75 / 2
   \<and> final (score_answer_by_keywords no_collaborators ''I implemented caching''
              [''caching''] 1.2 None) = 253 / 5"
proof -
  define t where "t = ''I implemented caching''"
  define r where "r = score_answer_by_keywords no_collaborators t [''caching''] 1.2 None"
  have g10: "\<not> (t = [] \<or> length (py_strip t) < 10)" unfolding t_def by code_simp
  then have g: "\<not> (t = [] \<or> length (py_strip t) < 5)" by auto
  have ne: "t \<noteq> []" using g by simp
  note eq = score_answer_by_keywords_long [of t no_collaborators "[''caching'']" "1.2" None, OF g]
  have m: "match_keywords t [''caching''] = ([''caching''], [])" unfolding t_def by code_simp
  have c: "content r = 100"
    unfolding r_def eq keyword_content_def Let_def m
    using py_round_of_int [of 100 1] by (simp add: initial_keyword_result_def)
  have parts: "compute_wpm t 1.2 = 150" "fst (count_fillers t) = 0"
    "estimate_grammar_errors no_collaborators t = 0" "calculate_vocabulary_diversity t = 0"
    "analyze_coherence t = 0" "detect_professional_vocabulary t = 0"
    "length (sentences_of t) = 1"
    unfolding t_def by code_simp+
  have "snd (get_wpm_assessment 150) = 0" by (simp add: get_wpm_assessment_def wpm_consts)
  then have d: "delivery r = 100"
    unfolding r_def eq parts using py_round_of_int [of 100 1] by simp
  have s: "analyze_sentence_complexity t = 50"
    using ne by (rule sentence_complexity_single) (simp add: parts)
  have "py_round (grammar_score 0) 1 = 100"
    using py_round_of_int [of 100 1] by (simp add: grammar_score_def)
  then have cf: "comm_final_score (calculate_enhanced_communication_score no_collaborators t) = 75 / 2"
    unfolding communication_score_value [OF g10] parts s
    using py_round_tenths [of 375] by simp
  have m: "communication r = 75 / 2"
    unfolding r_def eq cf by (simp add: py_round_def round_half_even_def Let_def)
  have "final r = py_round (max 0 (min 100 (keyword_final_score r))) 1"
    unfolding r_def by (rule eq)
  also have "keyword_final_score r = 405 / 8"
    by (simp add: keyword_final_score_def c d m SCORE_WEIGHTS_content_def
          SCORE_WEIGHTS_delivery_def SCORE_WEIGHTS_communication_def)
  also have "py_round (max 0 (min 100 (405 / 8))) 1 = 253 / 5"
    by (simp add: py_round_def round_half_even_def Let_def)
  finally have f: "final r = 253 / 5" .
  show ?thesis using c d m f unfolding r_def t_def by simp
qed

subsection \<open>An answer that is its own ideal answer\<close>

lemma np_dot_self: "np_dot v v = sum_list (map (\<lambda>a. a * a) v)"
  by (induction v) (simp_all add: np_dot_def)

lemma sum_squares_nonneg: "0 \<le> sum_list (map (\<lambda>a. a * a) (v :: real list))"
  by (induction v) simp_all

lemma cosine_similarity_self:
  "np_norm v \<noteq> 0 \<Longrightarrow> cosine_similarity env v v = 1 + cosine_error env v v"
proof -
  assume nz: "np_norm v \<noteq> 0"
  have "np_norm v * np_norm v = np_dot v v"
    using sum_squares_nonneg [of v] by (simp add: np_norm_def np_dot_self)
  moreover have "np_dot v v \<noteq> 0" using nz calculation by auto
  ultimately show ?thesis using nz by (simp add: cosine_similarity_def Let_def)
qed

lemma fallback_similarity_self:
  "py_split (py_lower t) \<noteq> [] \<Longrightarrow> fallback_similarity t t = 1"
proof -
  assume ne: "py_split (py_lower t) \<noteq> []"
  define w where "w = remdups (py_split (py_lower t))"
  have w: "w \<noteq> []" using ne by (simp add: w_def)
  have "filter (\<lambda>x. x \<in> set w) w = w" by (simp add: filter_id_conv)
  moreover have "remdups (w @ w) = w" by (simp add: w_def remdups_append)
  ultimately show ?thesis
    unfolding fallback_similarity_def Let_def w_def [symmetric] using w by simp
qed

lemma semantic_similarity_self:
  assumes "py_strip t \<noteq> []"
    and "\<forall>encode v. encoder env = Some encode \<longrightarrow> encode t = Some v \<longrightarrow>
           np_norm v \<noteq> 0 \<and> \<bar>cosine_error env v v\<bar> \<le> 0.05"
  shows "0.95 \<le> semantic_similarity env t t"
proof -
  have "py_split t \<noteq> []" using assms(1) by (rule py_split_nonempty)
  then have "py_split (py_lower t) \<noteq> []" by (simp add: py_split_lower)
  then have fb: "fallback_similarity t t = 1" by (rule fallback_similarity_self)
  have ne: "t \<noteq> []" using assms(1) by (auto simp: py_strip_def)
  show ?thesis
  proof (cases "encoder env")
    case None
    then show ?thesis using ne fb by (simp add: semantic_similarity_def)
  next
    case (Some encode)
    show ?thesis
    proof (cases "encode t")
      case None
      then show ?thesis using ne fb Some by (simp add: semantic_similarity_def)
    next
      case (Some v)
      have v: "np_norm v \<noteq> 0 \<and> \<bar>cosine_error env v v\<bar> \<le> 0.05"
        using assms(2) \<open>encoder env = Some encode\<close> Some by blast
      then have cs: "cosine_similarity env v v = 1 + cosine_error env v v"
        by (simp add: cosine_similarity_self)
      have "semantic_similarity env t t = max 0 (min 1 (cosine_similarity env v v))"
        using ne Some \<open>encoder env = Some encode\<close> by (simp add: semantic_similarity_def)
      then have eq: "semantic_similarity env t t = max 0 (min 1 (1 + cosine_error env v v))"
        by (simp only: cs)
      have "0.95 \<le> max 0 (min 1 (1 + cosine_error env v v))"
        using v by (auto simp: max_def min_def abs_if split: if_splits)
      then show ?thesis by (simp only: eq)
    qed
  qed
qed

lemma bump_count_keys: "fst ` set (bump_count w m) = insert w (fst ` set m)"
  by (induction w m rule: bump_count.induct) auto

lemma count_words_keys_from:
  "fst ` set (foldl (\<lambda>word_counts w. bump_count w word_counts) m ws) = fst ` set m \<union> set ws"
  by (induction ws arbitrary: m) (simp_all add: bump_count_keys)

lemma count_words_keys: "fst ` set (count_words ws) = set ws"
  by (simp add: count_words_def count_words_keys_from)

lemma extract_keywords_tokens:
  "k \<in> set (extract_keywords text n) \<Longrightarrow> k \<in> set (alpha_tokens (py_lower text))"
proof -
  assume "k \<in> set (extract_keywords text n)"
  then have "k \<in> fst ` set (take n (sort_key (\<lambda>(word, count). - int count)
      (count_words (filter (\<lambda>word. word \<notin> set stop_words) (alpha_tokens (py_lower text))))))"
    by (simp add: extract_keywords_def Let_def)
  then have "k \<in> fst ` set (count_words
      (filter (\<lambda>word. word \<notin> set stop_words) (alpha_tokens (py_lower text))))"
    using set_take_subset by fastforce
  then show ?thesis by (simp add: count_words_keys)
qed

lemma alpha_token_lower:
  "k \<in> set (alpha_tokens (py_lower text)) \<Longrightarrow> py_lower k = k"
proof -
  assume "k \<in> set (alpha_tokens (py_lower text))"
  then have run: "k \<in> set (split_on (\<lambda>c. \<not> is_word_char c) [] (py_lower text))"
    by (simp add: alpha_tokens_def word_runs_def)
  have "\<forall>c\<in>set k. \<not> is_upper c"
  proof
    fix c assume "c \<in> set k"
    with run have "c \<in> set (py_lower text)" using split_on_chars by fastforce
    then show "\<not> is_upper c" by (rule py_lower_no_upper)
  qed
  then show ?thesis by (rule py_lower_fixed)
qed

lemma own_keywords_match:
  "k \<in> set (extract_keywords t n) \<Longrightarrow>
   keyword_matches (remdups (alpha_tokens (py_lower t))) k"
  using extract_keywords_tokens [of k t n] alpha_token_lower [of k t]
  by (simp add: keyword_matches_def Let_def)

lemma match_own_keywords:
  assumes "t \<noteq> []" and "extract_keywords t n \<noteq> []"
  shows "match_keywords t (extract_keywords t n) = (extract_keywords t n, [])"
proof -
  have "filter (keyword_matches (remdups (alpha_tokens (py_lower t)))) (extract_keywords t n)
        = extract_keywords t n"
    by (simp add: filter_id_conv own_keywords_match)
  moreover have "filter (\<lambda>k. \<not> keyword_matches (remdups (alpha_tokens (py_lower t))) k)
        (extract_keywords t n) = []"
    by (simp add: filter_empty_conv own_keywords_match)
  ultimately show ?thesis using assms by (simp add: match_keywords_def Let_def)
qed

lemma keyword_score_own_answer:
  assumes ne: "t \<noteq> []" and kw: "extract_keywords t 15 \<noteq> []"
  shows "keyword_score (analyze_content_keywords t t) = 100"
proof -
  have g: "\<not> (t = [] \<or> t = [])" using ne by simp
  have c: "real (length (extract_keywords t 15)) / real (length (extract_keywords t 15)) = 1"
    using kw by simp
  have "py_round (min 100 (max 0 (85 + (1 - 0.8) * 75))) 1 = (100 :: real)"
    using py_round_of_int [of 100 1] by simp
  then show ?thesis
    unfolding analyze_content_keywords_def Let_def if_not_P [OF g] if_not_P [OF kw]
      match_own_keywords [OF ne kw] prod.case c
    by simp
qed

lemma identical_answer:
  assumes g: "\<not> (t = [] \<or> length (py_strip t) < 10)"
    and kw: "extract_keywords t 15 \<noteq> []"
    and enc: "\<forall>encode v. encoder env = Some encode \<longrightarrow> encode t = Some v \<longrightarrow>
                np_norm v \<noteq> 0 \<and> \<bar>cosine_error env v v\<bar> \<le> 0.05"
  shows "0.95 \<le> semantic_similarity env t t"
    and "content_final_score (calculate_enhanced_content_score env t t) = 100"
proof -
  have ne: "t \<noteq> []" and st: "py_strip t \<noteq> []" using g by auto
  show sim: "0.95 \<le> semantic_similarity env t t"
    using st enc by (rule semantic_similarity_self)
  then have ss: "min 100 (semantic_similarity env t t * 110) = 100" by simp
  have ks: "keyword_score (analyze_content_keywords t t) = 100"
    using ne kw by (rule keyword_score_own_answer)
  have r: "py_round 100 (Suc 0) = 100" using py_round_of_int [of 100 "Suc 0"] by simp
  show "content_final_score (calculate_enhanced_content_score env t t) = 100"
    unfolding calculate_enhanced_content_score_def if_not_P [OF g] Let_def ss ks
    by (simp add: r)
qed

text \<open>
  C9 (as stated, refuted). The transcript "we were what they were" has no word that
  \<^verbatim>\<open>extract_keywords\<close> keeps (every word of three or more letters is a stop word), so
  its keyword score is 0 and, with similarity 1, its content score is 40, below 85. A
  blank transcript has similarity 0 on the Jaccard path, and so has any transcript on the
  embedding path when the encoder returns a zero vector.
\<close>

theorem C9_identical_answer_counterexample:
  "semantic_similarity no_collaborators ''we were what they were'' ''we were what they were'' = 1
   \<and> content_final_score
         (calculate_enhanced_content_score no_collaborators ''we were what they were''
            ''we were what they were'') = 40
   \<and> semantic_similarity no_collaborators ''  '' ''  '' = 0
   \<and> semantic_similarity (no_collaborators\<lparr>encoder := Some (\<lambda>text. Some [0, 0])\<rparr>)
         ''we were what they were'' ''we were what they were'' = 0"
proof -
  define t where "t = ''we were what they were''"
  have g: "\<not> (t = [] \<or> length (py_strip t) < 10)" unfolding t_def by code_simp
  have ne: "t \<noteq> []" using g by simp
  have parts: "keyword_score (analyze_content_keywords t t) = 0"
    "fallback_similarity t t = 1" "length (py_split t) = 5"
    unfolding t_def by code_simp+
  have sim: "semantic_similarity no_collaborators t t = 1"
    using semantic_similarity_no_encoder [OF _ ne ne, of no_collaborators]
    by (simp add: no_collaborators_def parts)
  have short: "length (py_split t) < 30" by (simp add: parts)
  have c: "content_final_score (calculate_enhanced_content_score no_collaborators t t) = 40"
    unfolding content_score_value [OF g short] sim parts
    using py_round_of_int [of 40 1] by simp
  have blank: "fallback_similarity ''  '' ''  '' = 0" by code_simp
  have b: "semantic_similarity no_collaborators ''  '' ''  '' = 0"
    using semantic_similarity_no_encoder [of no_collaborators "''  ''" "''  ''"]
    by (simp add: no_collaborators_def blank)
  have z: "semantic_similarity (no_collaborators\<lparr>encoder := Some (\<lambda>text. Some [0, 0])\<rparr>) t t = 0"
    using ne by (simp add: semantic_similarity_def cosine_similarity_def np_norm_def)
  show ?thesis using sim c b z unfolding t_def by simp
qed

text \<open>
  C9 (amended). For every transcript with at least ten characters after stripping from
  which \<^verbatim>\<open>extract_keywords\<close> extracts at least one keyword, used both as the transcript
  and as the ideal answer, the similarity is at least 0.95 and the content score is 100
  (at least 85): on the Jaccard fallback path, and on the embedding path provided the
  encoder does not return a vector of norm zero for the transcript and the rounding
  error of the single-precision cosine is at most 0.05. The similarity need not be 1 on
  the embedding path: the second environment below is the one where the encoder returns
  \<open>[0.5, 3.0]\<close> and the cosine comes out as 0.99999994.
\<close>

theorem C9_identical_answer:
  assumes "\<not> (t = [] \<or> length (py_strip t) < 10)"
    and "extract_keywords t 15 \<noteq> []"
    and "\<forall>encode v. encoder env = Some encode \<longrightarrow> encode t = Some v \<longrightarrow>
           np_norm v \<noteq> 0 \<and> \<bar>cosine_error env v v\<bar> \<le> 0.05"
  shows "0.95 \<le> semantic_similarity env t t
         \<and> content_final_score (calculate_enhanced_content_score env t t) = 100"
  using identical_answer [OF assms] by simp

theorem C9_identical_answer_witness:
  "\<not> (''We shipped code'' = [] \<or> length (py_strip ''We shipped code'') < 10)
   \<and> extract_keywords ''We shipped code'' 15 \<noteq> []
   \<and> 0.95 \<le> semantic_similarity no_collaborators ''We shipped code'' ''We shipped code''
   \<and> content_final_score
         (calculate_enhanced_content_score no_collaborators ''We shipped code''
            ''We shipped code'') = 100
   \<and> 0.95 \<le> semantic_similarity
         (no_collaborators\<lparr>encoder := Some (\<lambda>text. Some [0.5, 3.0]),
                           cosine_error := (\<lambda>vec1 vec2. 0.99999994 - 1)\<rparr>)
         ''We shipped code'' ''We shipped code''
   \<and> semantic_similarity
         (no_collaborators\<lparr>encoder := Some (\<lambda>text. Some [0.5, 3.0]),
                           cosine_error := (\<lambda>vec1 vec2. 0.99999994 - 1)\<rparr>)
         ''We shipped code'' ''We shipped code'' < 1
   \<and> content_final_score
         (calculate_enhanced_content_score
            (no_collaborators\<lparr>encoder := Some (\<lambda>text. Some [0.5, 3.0]),
                              cosine_error := (\<lambda>vec1 vec2. 0.99999994 - 1)\<rparr>)
            ''We shipped code'' ''We shipped code'') = 100"
proof -
  define env where "env = no_collaborators\<lparr>encoder := Some (\<lambda>text. Some [0.5, 3.0]),
                           cosine_error := (\<lambda>vec1 vec2. 0.99999994 - 1)\<rparr>"
  have g: "\<not> (''We shipped code'' = [] \<or> length (py_strip ''We shipped code'') < 10)"
    by code_simp
  have k: "extract_keywords ''We shipped code'' 15 \<noteq> []" by code_simp
  have e0: "\<forall>encode v. encoder no_collaborators = Some encode \<longrightarrow>
      encode ''We shipped code'' = Some v \<longrightarrow>
      np_norm v \<noteq> 0 \<and> \<bar>cosine_error no_collaborators v v\<bar> \<le> 0.05"
    by (simp add: no_collaborators_def)
  have e1: "\<forall>encode v. encoder env = Some encode \<longrightarrow>
      encode ''We shipped code'' = Some v \<longrightarrow>
      np_norm v \<noteq> 0 \<and> \<bar>cosine_error env v v\<bar> \<le> 0.05"
    by (auto simp: env_def np_norm_def)
  have n: "np_norm [0.5, 3.0] \<noteq> 0" by (simp add: np_norm_def)
  have cs: "cosine_similarity env [0.5, 3.0] [0.5, 3.0] =
              1 + cosine_error env [0.5, 3.0] [0.5, 3.0]"
    using n by (rule cosine_similarity_self)
  have "semantic_similarity env ''We shipped code'' ''We shipped code'' =
          max 0 (min 1 (cosine_similarity env [0.5, 3.0] [0.5, 3.0]))"
    by (simp add: semantic_similarity_def env_def)
  also have "\<dots> = max 0 (min 1 (1 + cosine_error env [0.5, 3.0] [0.5, 3.0]))"
    by (simp only: cs)
  also have "\<dots> < 1" by (simp add: env_def)
  finally have lt: "semantic_similarity env ''We shipped code'' ''We shipped code'' < 1" .
  show ?thesis
    using g k lt C9_identical_answer [OF g k e0] C9_identical_answer [OF g k e1]
    unfolding env_def by simp
qed

end
